theory Spec2Isabelle
  imports Complex_Main "HOL-Library.AList" "HOL-Library.Multiset" "HOL-Library.Sublist"
begin

section \<open>Fleet optimizer service: data model\<close>

text \<open>
  The embedding follows \<^verbatim>\<open>src/services/fleet-optimizer/app.py\<close>. Python floats are
  modelled as exact reals and Python's unbounded ints as \<^typ>\<open>int\<close>; every exception
  that the source can raise in exact arithmetic is a value of \<open>py_error\<close>.
\<close>

datatype py_error = ZeroDivisionError | ValueError

record DeliveryStop =
  stop_id :: string
  stop_name :: string
  latitude :: real
  longitude :: real
  priority :: int
  time_window_start :: string
  time_window_end :: string
  estimated_duration :: int

record Vehicle =
  vehicle_id :: string
  driver_name :: string
  capacity :: real
  current_lat :: real
  current_lon :: real
  fuel_level :: real
  max_fuel :: real

section \<open>Great-circle distance\<close>

definition radians :: "real \<Rightarrow> real" where
  "radians x = x * pi / 180"

text \<open>The haversine term \<open>a\<close> of \<open>calculate_distance\<close> (line 63).\<close>

definition haversine_a :: "real \<Rightarrow> real \<Rightarrow> real \<Rightarrow> real \<Rightarrow> real" where
  "haversine_a lat1 lon1 lat2 lon2 =
     (let lat1_rad = radians lat1; lon1_rad = radians lon1;
          lat2_rad = radians lat2; lon2_rad = radians lon2;
          dlat = lat2_rad - lat1_rad; dlon = lon2_rad - lon1_rad
      in (sin (dlat / 2))\<^sup>2 + cos lat1_rad * cos lat2_rad * (sin (dlon / 2))\<^sup>2)"

definition calculate_distance :: "real \<Rightarrow> real \<Rightarrow> real \<Rightarrow> real \<Rightarrow> real" where
  "calculate_distance lat1 lon1 lat2 lon2 =
     (let R = 6371;
          a = haversine_a lat1 lon1 lat2 lon2;
          c = 2 * arcsin (sqrt a)
      in R * c)"

section \<open>Fuel feasibility\<close>

record FuelFeasibility =
  ff_vehicle_id :: string
  route_distance :: real
  estimated_fuel_consumption :: real
  current_fuel_level :: real
  ff_max_fuel :: real
  fuel_deficit :: real
  fuel_percentage :: real
  needs_refuel :: bool

text \<open>
  \<open>calculate_fuel_efficiency\<close> (lines 176-199). The dictionary is built in one
  expression; the division for \<open>fuel_percentage\<close> raises \<open>ZeroDivisionError\<close> when
  \<open>max_fuel\<close> is zero, which the \<open>except\<close> clause turns into an error result.
\<close>

definition calculate_fuel_efficiency :: "Vehicle \<Rightarrow> real \<Rightarrow> py_error + FuelFeasibility" where
  "calculate_fuel_efficiency vehicle rdist =
     (let fuel_per_km = 0.08;
          estimated_fuel_needed = rdist * fuel_per_km;
          deficit = max 0 (estimated_fuel_needed - fuel_level vehicle)
      in if max_fuel vehicle = 0 then Inl ZeroDivisionError
         else Inr \<lparr> ff_vehicle_id = vehicle_id vehicle,
                    route_distance = rdist,
                    estimated_fuel_consumption = estimated_fuel_needed,
                    current_fuel_level = fuel_level vehicle,
                    ff_max_fuel = max_fuel vehicle,
                    fuel_deficit = deficit,
                    fuel_percentage = (fuel_level vehicle / max_fuel vehicle) * 100,
                    needs_refuel = (deficit > 5) \<rparr>)"

section \<open>Route sequencing\<close>

record RouteResult =
  rr_vehicle_id :: "string option"
  route :: "DeliveryStop list"
  total_distance :: real
  estimated_time :: real
  stops_count :: "nat option"
  optimization_method :: "string option"

text \<open>
  The body of the inner \<open>for\<close> loop of \<open>optimize_route\<close> (lines 87-99). The pair of
  loop variables \<open>(nearest_stop, nearest_distance)\<close> is \<open>None\<close> while it still holds
  its initial value \<open>(None, inf)\<close>; both variables are always assigned together. Note
  that line 98 stores the raw \<open>distance\<close>, and that line 97 compares the next
  stop's adjusted distance with that stored value.
\<close>

definition scan_step ::
  "real \<Rightarrow> real \<Rightarrow> (DeliveryStop \<times> real) option \<Rightarrow> DeliveryStop \<Rightarrow> (DeliveryStop \<times> real) option" where
  "scan_step cur_lat cur_lon nearest stop =
     (let distance = calculate_distance cur_lat cur_lon (latitude stop) (longitude stop);
          priority_factor = 1.0 - real_of_int (priority stop - 1) * 0.1;
          adjusted_distance = distance * priority_factor
      in if (case nearest of None \<Rightarrow> True
             | Some (nearest_stop, nearest_distance) \<Rightarrow> adjusted_distance < nearest_distance)
         then Some (stop, distance) else nearest)"

definition find_nearest ::
  "real \<Rightarrow> real \<Rightarrow> DeliveryStop list \<Rightarrow> (DeliveryStop \<times> real) option" where
  "find_nearest cur_lat cur_lon unvisited = foldl (scan_step cur_lat cur_lon) None unvisited"

lemma scan_foldl_Some:
  "foldl (scan_step la lo) (Some p) xs \<noteq> None"
  by (induction xs arbitrary: p) (simp_all add: scan_step_def Let_def)

lemma find_nearest_not_None:
  "unvisited \<noteq> [] \<Longrightarrow> find_nearest la lo unvisited \<noteq> None"
  by (cases unvisited) (simp_all add: find_nearest_def scan_step_def Let_def scan_foldl_Some)

lemma scan_foldl_mem:
  "foldl (scan_step la lo) acc xs = Some (s, d) \<Longrightarrow> s \<in> set xs \<or> acc = Some (s, d)"
proof (induction xs arbitrary: acc)
  case Nil
  then show ?case by simp
next
  case (Cons x xs)
  from Cons.prems have "foldl (scan_step la lo) (scan_step la lo acc x) xs = Some (s, d)"
    by simp
  from Cons.IH [OF this] show ?case
    by (auto simp add: scan_step_def Let_def split: if_splits)
qed

lemma find_nearest_mem:
  "find_nearest la lo unvisited = Some (s, d) \<Longrightarrow> s \<in> set unvisited"
  using scan_foldl_mem [of la lo None unvisited s d] by (simp add: find_nearest_def)

text \<open>
  The \<open>while unvisited\<close> loop (lines 82-106). When the scan leaves \<open>nearest_stop\<close>
  unset the source goes round again with nothing changed; the termination proof shows
  that this branch is never taken on a non-empty list.
\<close>

function visit_loop ::
  "real \<Rightarrow> real \<Rightarrow> DeliveryStop list \<Rightarrow> DeliveryStop list \<Rightarrow> real \<Rightarrow> DeliveryStop list \<times> real" where
  "visit_loop cur_lat cur_lon unvisited rte tot_distance =
     (if unvisited = [] then (rte, tot_distance)
      else (case find_nearest cur_lat cur_lon unvisited of
              None \<Rightarrow> visit_loop cur_lat cur_lon unvisited rte tot_distance
            | Some (nearest_stop, nearest_distance) \<Rightarrow>
                visit_loop (latitude nearest_stop) (longitude nearest_stop)
                  (remove1 nearest_stop unvisited) (rte @ [nearest_stop])
                  (tot_distance + nearest_distance)))"
  by pat_completeness auto
termination
proof (relation "measure (\<lambda>(la, lo, unvisited, rte, tot_distance). length unvisited)")
  show "wf (measure (\<lambda>(la, lo, unvisited, rte, tot_distance). length unvisited))" by simp
next
  fix cur_lat cur_lon :: real and unvisited rte :: "DeliveryStop list" and tot_distance :: real
  assume "unvisited \<noteq> []" and "find_nearest cur_lat cur_lon unvisited = None"
  then show "((cur_lat, cur_lon, unvisited, rte, tot_distance), (cur_lat, cur_lon, unvisited, rte, tot_distance))
      \<in> measure (\<lambda>(la, lo, unvisited, rte, tot_distance). length unvisited)"
    using find_nearest_not_None by blast
next
  fix cur_lat cur_lon :: real and unvisited rte :: "DeliveryStop list" and tot_distance :: real
    and x2 :: "DeliveryStop \<times> real" and x y
  assume "unvisited \<noteq> []" and "find_nearest cur_lat cur_lon unvisited = Some x2"
    and "(x, y) = x2"
  then have "x \<in> set unvisited" using find_nearest_mem by metis
  then have "length (remove1 x unvisited) < length unvisited"
    using length_pos_if_in_set [of x unvisited] by (simp add: length_remove1)
  then show "((latitude x, longitude x, remove1 x unvisited, rte @ [x], tot_distance + y),
        (cur_lat, cur_lon, unvisited, rte, tot_distance))
      \<in> measure (\<lambda>(la, lo, unvisited, rte, tot_distance). length unvisited)"
    by simp
qed

declare visit_loop.simps [simp del]

text \<open>
  \<open>optimize_route\<close> (lines 68-126). In exact arithmetic no statement of the \<open>try\<close>
  block raises (the distance stays in the domain of \<open>math.sqrt\<close> and \<open>math.asin\<close>,
  and \<open>unvisited.remove\<close> is given a member of the list), so the error branch of the
  result type is never produced here; the caller's test \<open>'error' not in route_result\<close>
  is kept in \<open>assign_loop\<close>.
\<close>

definition optimize_route :: "DeliveryStop list \<Rightarrow> Vehicle \<Rightarrow> py_error + RouteResult" where
  "optimize_route stops vehicle =
     (if stops = [] then
        Inr \<lparr> rr_vehicle_id = None, route = [], total_distance = 0, estimated_time = 0,
              stops_count = None, optimization_method = None \<rparr>
      else
        (let (rte, tot_distance) = visit_loop (current_lat vehicle) (current_lon vehicle) stops [] 0;
             travel_time = (tot_distance / 40) * 60;
             total_service_time = sum_list (map estimated_duration rte)
         in Inr \<lparr> rr_vehicle_id = Some (vehicle_id vehicle),
                    route = rte,
                    total_distance = tot_distance,
                    estimated_time = travel_time + real_of_int total_service_time,
                    stops_count = Some (length rte),
                    optimization_method = Some ''nearest_neighbor_with_priority'' \<rparr>))"

section \<open>Assignment of deliveries to vehicles\<close>

text \<open>
  The scan for candidate stops (lines 142-151): one step of the \<open>for delivery in
  unassigned\<close> loop, and the loop as a left fold from the empty list.
\<close>

definition suitable_step :: "Vehicle \<Rightarrow> DeliveryStop list \<Rightarrow> DeliveryStop \<Rightarrow> DeliveryStop list" where
  "suitable_step vehicle suitable_stops delivery =
     (let distance_to_start =
            calculate_distance (current_lat vehicle) (current_lon vehicle)
              (latitude delivery) (longitude delivery)
      in if length suitable_stops < 5 \<and> distance_to_start < 50
         then suitable_stops @ [delivery] else suitable_stops)"

definition find_suitable_stops :: "Vehicle \<Rightarrow> DeliveryStop list \<Rightarrow> DeliveryStop list" where
  "find_suitable_stops vehicle unassigned = foldl (suitable_step vehicle) [] unassigned"

text \<open>\<open>for stop in suitable_stops: unassigned.remove(stop)\<close> (lines 161-162).\<close>

definition remove_all_stops :: "DeliveryStop list \<Rightarrow> DeliveryStop list \<Rightarrow> DeliveryStop list" where
  "remove_all_stops unassigned suitable_stops = foldl (\<lambda>u stop. remove1 stop u) unassigned suitable_stops"

text \<open>
  The loop over the sorted vehicles (lines 137-162). The dictionary \<open>assignments\<close>
  is an association list in insertion order; \<open>assignments[vehicle.id] = route_result\<close>
  replaces the value of a key already present and appends a new key otherwise, which is
  \<^const>\<open>AList.update\<close>.
\<close>

fun assign_loop ::
  "Vehicle list \<Rightarrow> (string \<times> RouteResult) list \<Rightarrow> DeliveryStop list
     \<Rightarrow> (string \<times> RouteResult) list \<times> DeliveryStop list" where
  "assign_loop [] assignments unassigned = (assignments, unassigned)"
| "assign_loop (vehicle # rest) assignments unassigned =
     (if unassigned = [] then (assignments, unassigned)
      else
        (let suitable_stops = find_suitable_stops vehicle unassigned
         in if suitable_stops \<noteq> [] then
              (case optimize_route suitable_stops vehicle of
                 Inr route_result \<Rightarrow>
                   assign_loop rest
                     (AList.update (vehicle_id vehicle) route_result assignments)
                     (remove_all_stops unassigned suitable_stops)
               | Inl e \<Rightarrow> assign_loop rest assignments unassigned)
            else assign_loop rest assignments unassigned))"

declare assign_loop.simps [simp del]

record AssignResult =
  assignments :: "(string \<times> RouteResult) list"
  unassigned_deliveries :: "DeliveryStop list"
  total_vehicles_used :: nat
  total_deliveries_assigned :: int
  optimization_timestamp :: string

text \<open>
  \<open>assign_routes\<close> (lines 128-174). \<open>sorted(..., reverse=True)\<close> is a stable sort
  in descending key order, here an ascending stable sort on the negated key. Computing
  the key divides by \<open>max_fuel\<close> for every vehicle before the loop starts, so one
  vehicle with \<open>max_fuel = 0\<close> raises \<open>ZeroDivisionError\<close>, which the \<open>except\<close>
  clause returns as an error result. The clock reading is the parameter \<open>now\<close>.
\<close>

definition assign_routes ::
  "DeliveryStop list \<Rightarrow> Vehicle list \<Rightarrow> string \<Rightarrow> py_error + AssignResult" where
  "assign_routes deliveries vehicles now =
     (if list_ex (\<lambda>v. max_fuel v = 0) vehicles then Inl ZeroDivisionError
      else
        (let available_vehicles = sort_key (\<lambda>v. - (fuel_level v / max_fuel v)) vehicles;
             (assigned, unassigned) = assign_loop available_vehicles [] deliveries
         in Inr \<lparr> assignments = assigned,
                    unassigned_deliveries = unassigned,
                    total_vehicles_used = length assigned,
                    total_deliveries_assigned = int (length deliveries) - int (length unassigned),
                    optimization_timestamp = now \<rparr>))"

section \<open>Recommendations\<close>

datatype rec_type = fuel_alert | fuel_warning | efficiency_improvement

text \<open>
  The message of a recommendation: the two vehicle messages embed the vehicle id in a
  fixed text; the efficiency message embeds the formatted average, kept here as the
  number itself.
\<close>

datatype rec_message = VehicleText string | BelowOptimal real

record Recommendation =
  rec_kind :: rec_type
  rec_vehicle_id :: "string option"
  rec_driver_name :: "string option"
  rec_fuel_percentage :: "real option"
  rec_priority :: string
  rec_message :: rec_message
  rec_recommendation :: string

record OptimizationRecord =
  opt_id :: string
  opt_timestamp :: string
  total_deliveries :: nat
  total_vehicles :: nat
  assignments_made :: int
  efficiency_score :: real

text \<open>The attributes set by \<open>FleetOptimizerService.__init__\<close> (lines 45-49).\<close>

record ServiceState =
  svc_vehicles :: "Vehicle list"
  svc_routes :: "RouteResult list"
  svc_deliveries :: "DeliveryStop list"
  optimization_history :: "OptimizationRecord list"

definition initial_state :: ServiceState where
  "initial_state = \<lparr> svc_vehicles = [], svc_routes = [], svc_deliveries = [],
                       optimization_history = [] \<rparr>"

definition fuel_alert_for :: "Vehicle \<Rightarrow> real \<Rightarrow> Recommendation" where
  "fuel_alert_for vehicle pct =
     \<lparr> rec_kind = fuel_alert, rec_vehicle_id = Some (vehicle_id vehicle),
       rec_driver_name = Some (driver_name vehicle), rec_fuel_percentage = Some pct,
       rec_priority = ''high'',
       rec_message = VehicleText (''Vehicle '' @ vehicle_id vehicle @ '' needs refueling urgently''),
       rec_recommendation = ''Route vehicle to nearest fuel station'' \<rparr>"

definition fuel_warning_for :: "Vehicle \<Rightarrow> real \<Rightarrow> Recommendation" where
  "fuel_warning_for vehicle pct =
     \<lparr> rec_kind = fuel_warning, rec_vehicle_id = Some (vehicle_id vehicle),
       rec_driver_name = Some (driver_name vehicle), rec_fuel_percentage = Some pct,
       rec_priority = ''medium'',
       rec_message = VehicleText (''Vehicle '' @ vehicle_id vehicle @ '' fuel level is low''),
       rec_recommendation = ''Plan refuel within next 4 hours'' \<rparr>"

definition efficiency_recommendation :: "real \<Rightarrow> Recommendation" where
  "efficiency_recommendation avg_efficiency =
     \<lparr> rec_kind = efficiency_improvement, rec_vehicle_id = None, rec_driver_name = None,
       rec_fuel_percentage = None, rec_priority = ''medium'',
       rec_message = BelowOptimal avg_efficiency,
       rec_recommendation =
         ''Consider reassigning delivery zones or adjusting time windows'' \<rparr>"

text \<open>
  The loop over \<open>self.vehicles\<close> (lines 207-228), with the list of recommendations
  built so far. The division raises \<open>ZeroDivisionError\<close> for a vehicle whose
  \<open>max_fuel\<close> is zero.
\<close>

fun vehicle_recommendations ::
  "Vehicle list \<Rightarrow> Recommendation list \<Rightarrow> py_error + Recommendation list" where
  "vehicle_recommendations [] recs = Inr recs"
| "vehicle_recommendations (vehicle # rest) recs =
     (if max_fuel vehicle = 0 then Inl ZeroDivisionError
      else
        (let pct = (fuel_level vehicle / max_fuel vehicle) * 100
         in if pct < 20 then vehicle_recommendations rest (recs @ [fuel_alert_for vehicle pct])
            else if pct < 40 then
              vehicle_recommendations rest (recs @ [fuel_warning_for vehicle pct])
            else vehicle_recommendations rest recs))"

text \<open>
  \<open>get_optimization_recommendations\<close> (lines 201-247): any exception makes the
  method return the empty list. \<open>optimization_history[-5:]\<close> is taken only when
  the history has more than five entries, so it is the last five.
\<close>

definition get_optimization_recommendations :: "ServiceState \<Rightarrow> Recommendation list" where
  "get_optimization_recommendations s =
     (case vehicle_recommendations (svc_vehicles s) [] of
        Inl e \<Rightarrow> []
      | Inr recs \<Rightarrow>
          (if length (optimization_history s) > 5 then
             (let recent_optimizations =
                    drop (length (optimization_history s) - 5) (optimization_history s);
                  avg_efficiency = sum_list (map efficiency_score recent_optimizations)
                                     / real (length recent_optimizations)
              in if avg_efficiency < 0.7 then recs @ [efficiency_recommendation avg_efficiency]
                 else recs)
           else recs))"

section \<open>HTTP endpoints\<close>

text \<open>
  A numeric field of a JSON object as the parsing code sees it: missing (the default
  applies), present with a value that \<open>float()\<close> or \<open>int()\<close> accepts, given here
  as the converted number, or present with a value that the conversion rejects.
\<close>

datatype 'a field = Absent | Given 'a | Uncoercible

definition coerce :: "'a \<Rightarrow> 'a field \<Rightarrow> py_error + 'a" where
  "coerce dflt f = (case f of Absent \<Rightarrow> Inr dflt | Given x \<Rightarrow> Inr x | Uncoercible \<Rightarrow> Inl ValueError)"

text \<open>
  The entries of \<open>deliveries\<close> and \<open>vehicles\<close> in the request body. The field
  \<open>fresh uuid\<close> is the value of \<open>str(uuid.uuid4())\<close> evaluated for this entry, used
  when \<open>id\<close> is missing.
\<close>

record DeliveryItem =
  di_id :: "string option"
  di_fresh_uuid :: string
  di_name :: "string option"
  di_latitude :: "real field"
  di_longitude :: "real field"
  di_priority :: "int field"
  di_time_window_start :: "string option"
  di_time_window_end :: "string option"
  di_estimated_duration :: "int field"

record VehicleItem =
  vi_id :: "string option"
  vi_fresh_uuid :: string
  vi_driver_name :: "string option"
  vi_capacity :: "real field"
  vi_current_lat :: "real field"
  vi_current_lon :: "real field"
  vi_fuel_level :: "real field"
  vi_max_fuel :: "real field"

definition get_default :: "'a option \<Rightarrow> 'a \<Rightarrow> 'a" where
  "get_default v dflt = (case v of None \<Rightarrow> dflt | Some x \<Rightarrow> x)"

definition parse_delivery :: "DeliveryItem \<Rightarrow> py_error + DeliveryStop" where
  "parse_delivery item =
     (case coerce 0 (di_latitude item) of Inl e \<Rightarrow> Inl e | Inr lat \<Rightarrow>
     (case coerce 0 (di_longitude item) of Inl e \<Rightarrow> Inl e | Inr lon \<Rightarrow>
     (case coerce 3 (di_priority item) of Inl e \<Rightarrow> Inl e | Inr prio \<Rightarrow>
     (case coerce 15 (di_estimated_duration item) of Inl e \<Rightarrow> Inl e | Inr dur \<Rightarrow>
        Inr \<lparr> stop_id = get_default (di_id item) (di_fresh_uuid item),
              stop_name = get_default (di_name item) ''Delivery Point'',
              latitude = lat, longitude = lon, priority = prio,
              time_window_start = get_default (di_time_window_start item) ''09:00'',
              time_window_end = get_default (di_time_window_end item) ''17:00'',
              estimated_duration = dur \<rparr>))))"

definition parse_vehicle :: "VehicleItem \<Rightarrow> py_error + Vehicle" where
  "parse_vehicle item =
     (case coerce 1000 (vi_capacity item) of Inl e \<Rightarrow> Inl e | Inr cap \<Rightarrow>
     (case coerce 0 (vi_current_lat item) of Inl e \<Rightarrow> Inl e | Inr lat \<Rightarrow>
     (case coerce 0 (vi_current_lon item) of Inl e \<Rightarrow> Inl e | Inr lon \<Rightarrow>
     (case coerce 50 (vi_fuel_level item) of Inl e \<Rightarrow> Inl e | Inr fuel \<Rightarrow>
     (case coerce 60 (vi_max_fuel item) of Inl e \<Rightarrow> Inl e | Inr mx \<Rightarrow>
        Inr \<lparr> vehicle_id = get_default (vi_id item) (vi_fresh_uuid item),
              driver_name = get_default (vi_driver_name item) ''Unknown'',
              capacity = cap, current_lat = lat, current_lon = lon,
              fuel_level = fuel, max_fuel = mx \<rparr>)))))"

text \<open>A parsing loop: the first entry that fails to convert raises.\<close>

fun parse_items :: "('i \<Rightarrow> py_error + 'a) \<Rightarrow> 'i list \<Rightarrow> 'a list \<Rightarrow> py_error + 'a list" where
  "parse_items parse [] acc = Inr acc"
| "parse_items parse (item # rest) acc =
     (case parse item of Inl e \<Rightarrow> Inl e | Inr x \<Rightarrow> parse_items parse rest (acc @ [x]))"

text \<open>
  The JSON body of \<open>/optimize\<close>; a missing \<open>deliveries\<close> or \<open>vehicles\<close> key is the
  empty list. A body that is missing or falsy is \<open>None\<close>.
\<close>

record OptimizeData =
  data_deliveries :: "DeliveryItem list"
  data_vehicles :: "VehicleItem list"

record FuelData =
  fd_vehicle_id :: "string option"
  fd_driver_name :: "string option"
  fd_capacity :: "real option"
  fd_current_lat :: "real field"
  fd_current_lon :: "real field"
  fd_fuel_level :: "real field"
  fd_max_fuel :: "real field"
  fd_route_distance :: "real field"

datatype Response =
    Error400
  | Error500 py_error
  | HealthResponse string nat nat
  | OptimizeResponse string "py_error + AssignResult" "Recommendation list"
  | FuelEfficiencyResponse "py_error + FuelFeasibility"
  | RecommendationsResponse "Recommendation list" nat string
  | HistoryResponse "OptimizationRecord list" nat nat

text \<open>
  \<open>optimize_routes\<close> (lines 264-323). \<open>record_uuid\<close> is the identifier drawn for
  the history record; \<open>now_assign\<close> and \<open>now_record\<close> are the two clock readings. An
  error result of \<open>assign_routes\<close> is a dictionary without the key
  \<open>total_deliveries_assigned\<close>, for which \<open>result.get(..., 0)\<close> gives 0.
\<close>

definition optimize_routes ::
  "ServiceState \<Rightarrow> OptimizeData option \<Rightarrow> string \<Rightarrow> string \<Rightarrow> string \<Rightarrow> ServiceState \<times> Response" where
  "optimize_routes s body record_uuid now_assign now_record =
     (case body of
        None \<Rightarrow> (s, Error400)
      | Some d \<Rightarrow>
          (case parse_items parse_delivery (data_deliveries d) [] of
             Inl e \<Rightarrow> (s, Error500 e)
           | Inr deliveries \<Rightarrow>
               (case parse_items parse_vehicle (data_vehicles d) [] of
                  Inl e \<Rightarrow> (s, Error500 e)
                | Inr vehicles \<Rightarrow>
                    (let result = assign_routes deliveries vehicles now_assign;
                         made = (case result of Inl e \<Rightarrow> 0
                                 | Inr r \<Rightarrow> total_deliveries_assigned r);
                         optimization_record =
                           \<lparr> opt_id = record_uuid,
                             opt_timestamp = now_record,
                             total_deliveries = length deliveries,
                             total_vehicles = length vehicles,
                             assignments_made = made,
                             efficiency_score =
                               real_of_int made / real (max 1 (length deliveries)) \<rparr>;
                         s' = s \<lparr> optimization_history :=
                                    optimization_history s @ [optimization_record] \<rparr>
                     in (s', OptimizeResponse record_uuid result
                               (get_optimization_recommendations s'))))))"

text \<open>The \<open>/fuel-efficiency\<close> endpoint (lines 325-351).\<close>

definition fuel_efficiency_endpoint :: "FuelData option \<Rightarrow> Response" where
  "fuel_efficiency_endpoint body =
     (case body of
        None \<Rightarrow> Error400
      | Some d \<Rightarrow>
          (case coerce 0 (fd_current_lat d) of Inl e \<Rightarrow> Error500 e | Inr lat \<Rightarrow>
          (case coerce 0 (fd_current_lon d) of Inl e \<Rightarrow> Error500 e | Inr lon \<Rightarrow>
          (case coerce 50 (fd_fuel_level d) of Inl e \<Rightarrow> Error500 e | Inr fuel \<Rightarrow>
          (case coerce 60 (fd_max_fuel d) of Inl e \<Rightarrow> Error500 e | Inr mx \<Rightarrow>
          (case coerce 0 (fd_route_distance d) of Inl e \<Rightarrow> Error500 e | Inr rdist \<Rightarrow>
             FuelEfficiencyResponse
               (calculate_fuel_efficiency
                  \<lparr> vehicle_id = get_default (fd_vehicle_id d) ''unknown'',
                    driver_name = get_default (fd_driver_name d) ''Unknown'',
                    capacity = get_default (fd_capacity d) 1000,
                    current_lat = lat, current_lon = lon, fuel_level = fuel, max_fuel = mx \<rparr>
                  rdist)))))))"

text \<open>
  \<open>optimization_history[-limit:]\<close> (line 375) with Python's slice rules: a positive
  \<open>limit\<close> keeps the last \<open>limit\<close> entries, \<open>limit = 0\<close> keeps all of them, and a
  negative \<open>limit\<close> drops the first \<open>-limit\<close> entries.
\<close>

definition history_tail :: "'a list \<Rightarrow> int \<Rightarrow> 'a list" where
  "history_tail xs limit =
     (if limit > 0 then drop (length xs - nat limit) xs else drop (nat (- limit)) xs)"

datatype ApiCall =
    Health string
  | Optimize "OptimizeData option" string string string
  | FuelEfficiency "FuelData option"
  | Recommendations string
  | History "int option"

text \<open>
  One request against the process-wide service object: the state after it and the
  response. For \<open>/history\<close> the query parameter is \<open>None\<close> when it is missing or not
  an integer, and the default 10 applies.
\<close>

fun handle_request :: "ServiceState \<Rightarrow> ApiCall \<Rightarrow> ServiceState \<times> Response" where
  "handle_request s (Health now) =
     (s, HealthResponse now (length (svc_vehicles s)) (length (svc_routes s)))"
| "handle_request s (Optimize body record_uuid now_assign now_record) =
     optimize_routes s body record_uuid now_assign now_record"
| "handle_request s (FuelEfficiency body) = (s, fuel_efficiency_endpoint body)"
| "handle_request s (Recommendations now) =
     (let recommendations = get_optimization_recommendations s
      in (s, RecommendationsResponse recommendations (length recommendations) now))"
| "handle_request s (History limit) =
     (let history = history_tail (optimization_history s) (get_default limit 10)
      in (s, HistoryResponse history (length (optimization_history s)) (length history)))"

text \<open>A sequence of requests, served one after the other.\<close>

fun serve :: "ServiceState \<Rightarrow> ApiCall list \<Rightarrow> ServiceState \<times> Response list" where
  "serve s [] = (s, [])"
| "serve s (call # calls) =
     (let (s', response) = handle_request s call;
          (s'', responses) = serve s' calls
      in (s'', response # responses))"

definition response_recommendations :: "Response \<Rightarrow> Recommendation list" where
  "response_recommendations response =
     (case response of
        OptimizeResponse opt_uuid result recs \<Rightarrow> recs
      | RecommendationsResponse recs n now \<Rightarrow> recs
      | _ \<Rightarrow> [])"

section \<open>Derived notions used in the statements\<close>

text \<open>The test of line 150 on one delivery: within 50 km of the vehicle's position.\<close>

definition within_range :: "Vehicle \<Rightarrow> DeliveryStop \<Rightarrow> bool" where
  "within_range vehicle delivery \<longleftrightarrow>
     calculate_distance (current_lat vehicle) (current_lon vehicle)
       (latitude delivery) (longitude delivery) < 50"

text \<open>
  The pool of unassigned deliveries when the loop of \<open>assign_routes\<close> reaches the
  vehicle at position \<open>i\<close> of the sorted list: what the loop, run on the \<open>i\<close>
  vehicles before it, leaves unassigned.
\<close>

definition pool_before :: "Vehicle list \<Rightarrow> DeliveryStop list \<Rightarrow> nat \<Rightarrow> DeliveryStop list" where
  "pool_before order deliveries i = snd (assign_loop (take i order) [] deliveries)"

text \<open>All stops of all per-vehicle routes of a result, in the order of the dictionary.\<close>

definition all_routes :: "(string \<times> RouteResult) list \<Rightarrow> DeliveryStop list" where
  "all_routes assigned = concat (map (\<lambda>(k, rr). route rr) assigned)"

text \<open>
  The adjusted score as the specification words it: the raw distance from the current
  position times \<open>1 - (priority - 1) * 0.1\<close>.
\<close>

definition adjusted_score :: "real \<Rightarrow> real \<Rightarrow> DeliveryStop \<Rightarrow> real" where
  "adjusted_score cur_lat cur_lon stop =
     calculate_distance cur_lat cur_lon (latitude stop) (longitude stop)
       * (1 - (real_of_int (priority stop) - 1) * 0.1)"

text \<open>
  The fuel ratio of a vehicle and the vehicle-level recommendation as the specification
  words it: a \<open>fuel_alert\<close> below 20, else a \<open>fuel_warning\<close> below 40, else nothing.
\<close>

definition fuel_ratio :: "Vehicle \<Rightarrow> real" where
  "fuel_ratio vehicle = fuel_level vehicle / max_fuel vehicle * 100"

definition vehicle_level :: "Vehicle \<Rightarrow> Recommendation list" where
  "vehicle_level vehicle =
     (if fuel_ratio vehicle < 20 then [fuel_alert_for vehicle (fuel_ratio vehicle)]
      else if fuel_ratio vehicle < 40 then [fuel_warning_for vehicle (fuel_ratio vehicle)]
      else [])"

text \<open>
  The recommendation derived from the history: with more than five entries, the mean
  efficiency score of the last five, and one \<open>efficiency_improvement\<close> entry when it
  is below 0.7.
\<close>

definition ledger_level :: "OptimizationRecord list \<Rightarrow> Recommendation list" where
  "ledger_level history =
     (if length history > 5 then
        (let mean = sum_list (map efficiency_score (drop (length history - 5) history)) / 5
         in if mean < 0.7 then [efficiency_recommendation mean] else [])
      else [])"

text \<open>The \<open>efficiency_improvement\<close> entries of a list of recommendations.\<close>

definition efficiency_entries :: "Recommendation list \<Rightarrow> Recommendation list" where
  "efficiency_entries recs = filter (\<lambda>r. rec_kind r = efficiency_improvement) recs"

section \<open>Concrete inputs\<close>

text \<open>
  Stops and vehicles on the equator, where the great-circle distance is proportional
  to the difference in longitude; all other fields take the defaults of the request
  parser.
\<close>

definition equator_stop :: "string \<Rightarrow> real \<Rightarrow> int \<Rightarrow> int \<Rightarrow> DeliveryStop" where
  "equator_stop sid lon prio dur =
     \<lparr> stop_id = sid, stop_name = ''Delivery Point'', latitude = 0, longitude = lon,
       priority = prio, time_window_start = ''09:00'', time_window_end = ''17:00'',
       estimated_duration = dur \<rparr>"

definition equator_vehicle :: "string \<Rightarrow> real \<Rightarrow> real \<Rightarrow> real \<Rightarrow> Vehicle" where
  "equator_vehicle vid lon fuel mx =
     \<lparr> vehicle_id = vid, driver_name = ''Unknown'', capacity = 1000, current_lat = 0,
       current_lon = lon, fuel_level = fuel, max_fuel = mx \<rparr>"

text \<open>
  Two stops seen from a vehicle at longitude 0: \<open>A\<close> is farther away but has
  priority 5, \<open>B\<close> is nearer and has priority 1.
\<close>

definition stop_A :: DeliveryStop where "stop_A = equator_stop ''A'' (10 / 100) 5 10"

definition stop_B :: DeliveryStop where "stop_B = equator_stop ''B'' (8 / 100) 1 10"

definition veh_1 :: Vehicle where "veh_1 = equator_vehicle ''v1'' 0 50 60"

text \<open>
  Two vehicles given in ascending fuel order and seven deliveries: one out of range,
  five in range listed from the farthest to the nearest, and a sixth in range that is
  the nearest of all.
\<close>

definition scnW_vehicles :: "Vehicle list" where
  "scnW_vehicles = [equator_vehicle ''v2'' 0 30 60, equator_vehicle ''v1'' 0 50 60]"

definition scnW_deliveries :: "DeliveryStop list" where
  "scnW_deliveries =
     [equator_stop ''far'' 10 3 15,
      equator_stop ''s1'' (1 / 4) 3 15, equator_stop ''s2'' (1 / 5) 3 15,
      equator_stop ''s3'' (3 / 20) 3 15, equator_stop ''s4'' (1 / 10) 3 15,
      equator_stop ''s5'' (1 / 20) 3 15, equator_stop ''s6'' (1 / 100) 3 15]"

definition scnW_route1 :: RouteResult where
  "scnW_route1 =
     \<lparr> rr_vehicle_id = Some ''v1'',
       route = [equator_stop ''s5'' (1 / 20) 3 15, equator_stop ''s4'' (1 / 10) 3 15,
                equator_stop ''s3'' (3 / 20) 3 15, equator_stop ''s2'' (1 / 5) 3 15,
                equator_stop ''s1'' (1 / 4) 3 15],
       total_distance = (1 / 4) * (6371 * pi / 180),
       estimated_time = ((1 / 4) * (6371 * pi / 180) / 40) * 60 + 75,
       stops_count = Some 5,
       optimization_method = Some ''nearest_neighbor_with_priority'' \<rparr>"

definition scnW_route2 :: RouteResult where
  "scnW_route2 =
     \<lparr> rr_vehicle_id = Some ''v2'',
       route = [equator_stop ''s6'' (1 / 100) 3 15],
       total_distance = (1 / 100) * (6371 * pi / 180),
       estimated_time = ((1 / 100) * (6371 * pi / 180) / 40) * 60 + 15,
       stops_count = Some 1,
       optimization_method = Some ''nearest_neighbor_with_priority'' \<rparr>"

definition scnW_result :: "string \<Rightarrow> AssignResult" where
  "scnW_result now =
     \<lparr> assignments = [(''v1'', scnW_route1), (''v2'', scnW_route2)],
       unassigned_deliveries = [equator_stop ''far'' 10 3 15],
       total_vehicles_used = 2,
       total_deliveries_assigned = 6,
       optimization_timestamp = now \<rparr>"

text \<open>Two vehicles that share the identifier \<open>v1\<close>, each next to one delivery.\<close>

definition dupid_vehicles :: "Vehicle list" where
  "dupid_vehicles = [equator_vehicle ''v1'' 0 50 60, equator_vehicle ''v1'' 10 30 60]"

definition dupid_deliveries :: "DeliveryStop list" where
  "dupid_deliveries = [equator_stop ''d1'' 0 3 15, equator_stop ''d2'' 10 3 15]"

definition single_stop_route :: "string \<Rightarrow> DeliveryStop \<Rightarrow> RouteResult" where
  "single_stop_route vid stop =
     \<lparr> rr_vehicle_id = Some vid, route = [stop], total_distance = 0,
       estimated_time = real_of_int (estimated_duration stop), stops_count = Some 1,
       optimization_method = Some ''nearest_neighbor_with_priority'' \<rparr>"

definition dupid_result :: AssignResult where
  "dupid_result =
     \<lparr> assignments = [(''v1'', single_stop_route ''v1'' (equator_stop ''d2'' 10 3 15))],
       unassigned_deliveries = [],
       total_vehicles_used = 1,
       total_deliveries_assigned = 2,
       optimization_timestamp = ''t'' \<rparr>"

text \<open>
  Scenario B of the specification: one vehicle at (0, 0) with fuel 50 of 60, deliveries
  at (0, 1) with priority 1 and at (0, 2) with priority 5, both of duration 10; and the
  same scenario with the two longitudes divided by ten.
\<close>

definition scnB_vehicle :: Vehicle where
  "scnB_vehicle = equator_vehicle ''v1'' 0 50 60"

definition scnB_deliveries :: "DeliveryStop list" where
  "scnB_deliveries = [equator_stop ''d1'' 1 1 10, equator_stop ''d2'' 2 5 10]"

definition scnB_near_deliveries :: "DeliveryStop list" where
  "scnB_near_deliveries = [equator_stop ''d1'' (1 / 10) 1 10, equator_stop ''d2'' (1 / 5) 5 10]"

text \<open>Service states with a given history or a given vehicle list, and history entries.\<close>

definition run_with_score :: "int \<Rightarrow> OptimizationRecord" where
  "run_with_score made =
     \<lparr> opt_id = ''run'', opt_timestamp = ''t'', total_deliveries = 10, total_vehicles = 1,
       assignments_made = made, efficiency_score = real_of_int made / 10 \<rparr>"

definition state_with_history :: "OptimizationRecord list \<Rightarrow> ServiceState" where
  "state_with_history history = initial_state \<lparr> optimization_history := history \<rparr>"

definition state_with_vehicles :: "Vehicle list \<Rightarrow> ServiceState" where
  "state_with_vehicles vs = initial_state \<lparr> svc_vehicles := vs \<rparr>"

definition five_runs :: "int \<Rightarrow> OptimizationRecord list" where
  "five_runs made = [run_with_score made, run_with_score made, run_with_score made,
                     run_with_score made, run_with_score made]"

definition six_runs :: "int \<Rightarrow> OptimizationRecord list" where
  "six_runs made = run_with_score made # five_runs made"

definition failed_run :: "string \<Rightarrow> string \<Rightarrow> nat \<Rightarrow> OptimizationRecord" where
  "failed_run uid now n =
     \<lparr> opt_id = uid, opt_timestamp = now, total_deliveries = n, total_vehicles = 1,
       assignments_made = 0, efficiency_score = 0 \<rparr>"

text \<open>Vehicles at 8.3, 33.3 and 83.3 percent of fuel, and one with \<open>max_fuel = 0\<close>.\<close>

definition low_vehicle :: Vehicle where "low_vehicle = equator_vehicle ''low'' 0 5 60"

definition mid_vehicle :: Vehicle where "mid_vehicle = equator_vehicle ''mid'' 0 20 60"

definition full_vehicle :: Vehicle where "full_vehicle = equator_vehicle ''full'' 0 50 60"

definition broken_vehicle :: Vehicle where "broken_vehicle = equator_vehicle ''broken'' 0 50 0"

text \<open>
  Request bodies: entries with every optional field missing; a body whose only vehicle
  has \<open>max_fuel = 0\<close>; a body whose only delivery is ten degrees of longitude away
  from its only vehicle; and a sequence of six such \<open>/optimize\<close> requests followed
  by \<open>/recommendations\<close>, with the final state and the responses.
\<close>

definition default_delivery_item :: DeliveryItem where
  "default_delivery_item =
     \<lparr> di_id = Some ''d1'', di_fresh_uuid = ''u1'', di_name = None, di_latitude = Absent,
       di_longitude = Absent, di_priority = Absent, di_time_window_start = None,
       di_time_window_end = None, di_estimated_duration = Absent \<rparr>"

definition default_vehicle_item :: VehicleItem where
  "default_vehicle_item =
     \<lparr> vi_id = Some ''v1'', vi_fresh_uuid = ''u2'', vi_driver_name = None,
       vi_capacity = Absent, vi_current_lat = Absent, vi_current_lon = Absent,
       vi_fuel_level = Absent, vi_max_fuel = Absent \<rparr>"

definition zero_fuel_body :: OptimizeData where
  "zero_fuel_body =
     \<lparr> data_deliveries = [default_delivery_item],
       data_vehicles = [default_vehicle_item \<lparr> vi_max_fuel := Given 0 \<rparr>] \<rparr>"

definition far_body :: OptimizeData where
  "far_body =
     \<lparr> data_deliveries = [default_delivery_item \<lparr> di_longitude := Given 10 \<rparr>],
       data_vehicles = [default_vehicle_item] \<rparr>"

definition far_result :: "string \<Rightarrow> AssignResult" where
  "far_result now =
     \<lparr> assignments = [], unassigned_deliveries = [equator_stop ''d1'' 10 3 15],
       total_vehicles_used = 0, total_deliveries_assigned = 0,
       optimization_timestamp = now \<rparr>"

definition busy_calls :: "ApiCall list" where
  "busy_calls =
     [Optimize (Some far_body) ''id'' ''t1'' ''t2'', Optimize (Some far_body) ''id'' ''t1'' ''t2'',
      Optimize (Some far_body) ''id'' ''t1'' ''t2'', Optimize (Some far_body) ''id'' ''t1'' ''t2'',
      Optimize (Some far_body) ''id'' ''t1'' ''t2'', Optimize (Some far_body) ''id'' ''t1'' ''t2'',
      Recommendations ''t3'']"

definition busy_responses :: "Response list" where
  "busy_responses =
     [OptimizeResponse ''id'' (Inr (far_result ''t1'')) [],
      OptimizeResponse ''id'' (Inr (far_result ''t1'')) [],
      OptimizeResponse ''id'' (Inr (far_result ''t1'')) [],
      OptimizeResponse ''id'' (Inr (far_result ''t1'')) [],
      OptimizeResponse ''id'' (Inr (far_result ''t1'')) [],
      OptimizeResponse ''id'' (Inr (far_result ''t1'')) [efficiency_recommendation 0],
      RecommendationsResponse [efficiency_recommendation 0] 1 ''t3'']"

definition busy_state :: ServiceState where
  "busy_state =
     state_with_history
       [failed_run ''id'' ''t2'' 1, failed_run ''id'' ''t2'' 1, failed_run ''id'' ''t2'' 1,
        failed_run ''id'' ''t2'' 1, failed_run ''id'' ''t2'' 1, failed_run ''id'' ''t2'' 1]"

section \<open>Properties of the distance function\<close>

lemma haversine_a_sym:
  "haversine_a lat1 lon1 lat2 lon2 = haversine_a lat2 lon2 lat1 lon1"
proof -
  have s: "(sin ((x - y) / 2))\<^sup>2 = (sin ((y - x) / 2))\<^sup>2" for x y :: real
  proof -
    have "(x - y) / 2 = - ((y - x) / 2)" by argo
    then have "sin ((x - y) / 2) = - sin ((y - x) / 2)"
      by (metis sin_minus)
    then show ?thesis by simp
  qed
  show ?thesis
    unfolding haversine_a_def Let_def
    by (simp add: s [of "radians lat2" "radians lat1"] s [of "radians lon2" "radians lon1"]
          mult.commute)
qed

text \<open>
  \<open>math.sqrt\<close> raises on a negative argument and \<open>math.asin\<close> outside \<open>[-1, 1]\<close>.
  The haversine term is a convex combination of two numbers of \<open>[0, 1]\<close>, so in exact
  arithmetic neither call of \<open>calculate_distance\<close> raises, for any coordinates.
\<close>

lemma sin_half_squared: "(sin (x / 2))\<^sup>2 = (1 - cos x) / (2::real)"
proof -
  have "cos x = cos (2 * (x / 2))" by simp
  also have "\<dots> = 1 - 2 * (sin (x / 2))\<^sup>2" by (rule cos_double_sin)
  finally show ?thesis by simp
qed

lemma haversine_a_range:
  "0 \<le> haversine_a lat1 lon1 lat2 lon2 \<and> haversine_a lat1 lon1 lat2 lon2 \<le> 1"
proof -
  define p where "p = radians lat1"
  define q where "q = radians lat2"
  define s where "s = (sin ((radians lon2 - radians lon1) / 2))\<^sup>2"
  define h where "h = (sin ((q - p) / 2))\<^sup>2"
  define c where "c = cos p * cos q"
  have a: "haversine_a lat1 lon1 lat2 lon2 = h + c * s"
    by (simp add: haversine_a_def Let_def p_def q_def s_def h_def c_def)
  have s0: "0 \<le> s" by (simp add: s_def)
  have s1: "s \<le> 1" unfolding s_def by (simp add: sin_squared_eq)
  have h0: "0 \<le> h" by (simp add: h_def)
  have h1: "h \<le> 1" unfolding h_def by (simp add: sin_squared_eq)
  have "h + c = (1 - cos (q - p)) / 2 + cos p * cos q"
    by (simp add: h_def c_def sin_half_squared)
  also have "\<dots> = (1 + cos (p + q)) / 2"
    by (simp add: cos_add cos_diff field_simps)
  finally have hc: "h + c = (1 + cos (p + q)) / 2" .
  have "- 1 \<le> cos (p + q)" by (rule cos_ge_minus_one)
  then have "0 \<le> 1 + cos (p + q)" by arith
  then have hc0: "0 \<le> h + c" unfolding hc by simp
  have "cos (p + q) \<le> 1" by (rule cos_le_one)
  then have "1 + cos (p + q) \<le> 2" by arith
  then have hc1: "h + c \<le> 1" unfolding hc by simp
  have split: "h + c * s = (1 - s) * h + s * (h + c)" by (simp add: algebra_simps)
  have t1: "0 \<le> (1 - s) * h" using s1 h0 by (intro mult_nonneg_nonneg) simp_all
  have t2: "0 \<le> s * (h + c)" using s0 hc0 by (rule mult_nonneg_nonneg)
  have u1: "(1 - s) * h \<le> (1 - s) * 1" using s1 h1 by (intro mult_left_mono) simp_all
  have u2: "s * (h + c) \<le> s * 1" using hc1 s0 by (rule mult_left_mono)
  from t1 t2 have "0 \<le> (1 - s) * h + s * (h + c)" by (rule add_nonneg_nonneg)
  moreover from u1 u2 have "(1 - s) * h + s * (h + c) \<le> 1" by simp
  ultimately show ?thesis unfolding a split by (rule conjI)
qed

lemma haversine_domain:
  "0 \<le> haversine_a lat1 lon1 lat2 lon2
   \<and> - 1 \<le> sqrt (haversine_a lat1 lon1 lat2 lon2)
   \<and> sqrt (haversine_a lat1 lon1 lat2 lon2) \<le> 1"
proof -
  from haversine_a_range [of lat1 lon1 lat2 lon2]
  have r: "0 \<le> haversine_a lat1 lon1 lat2 lon2" "haversine_a lat1 lon1 lat2 lon2 \<le> 1"
    by simp_all
  from r(1) have "0 \<le> sqrt (haversine_a lat1 lon1 lat2 lon2)" by simp
  moreover from r(2) have "sqrt (haversine_a lat1 lon1 lat2 lon2) \<le> 1" by simp
  ultimately show ?thesis using r(1) by linarith
qed

lemma calculate_distance_same: "calculate_distance la lo la lo = 0"
  by (simp add: calculate_distance_def haversine_a_def)

text \<open>
  Claim C9: the distance function is symmetric, and it is exactly zero when both points
  are the same.
\<close>

theorem calculate_distance_symmetric_zero:
  "calculate_distance lat1 lon1 lat2 lon2 = calculate_distance lat2 lon2 lat1 lon1
   \<and> calculate_distance lat lon lat lon = 0"
proof
  show "calculate_distance lat1 lon1 lat2 lon2 = calculate_distance lat2 lon2 lat1 lon1"
    unfolding calculate_distance_def Let_def
    by (simp only: haversine_a_sym [of lat1 lon1 lat2 lon2])
  show "calculate_distance lat lon lat lon = 0"
    by (simp add: calculate_distance_def haversine_a_def)
qed

text \<open>On the equator the distance is the difference in longitude times \<open>6371 * pi / 180\<close>.\<close>

lemma equator_distance:
  assumes "\<bar>y - x\<bar> \<le> 180"
  shows "calculate_distance 0 x 0 y = \<bar>y - x\<bar> * (6371 * pi / 180)"
proof -
  define t where "t = (radians y - radians x) / 2"
  have t: "t = (y - x) * pi / 360" by (simp add: t_def radians_def field_simps)
  have abs_t: "\<bar>t\<bar> = \<bar>y - x\<bar> * pi / 360" unfolding t by (simp add: abs_mult)
  also have "\<dots> \<le> 180 * pi / 360" using assms by (simp add: divide_right_mono mult_right_mono)
  finally have bnd: "\<bar>t\<bar> \<le> pi / 2" by simp
  have a: "haversine_a 0 x 0 y = (sin t)\<^sup>2"
    by (simp add: haversine_a_def Let_def t_def radians_def)
  have "sqrt ((sin t)\<^sup>2) = \<bar>sin t\<bar>" by simp
  also have "\<dots> = sin \<bar>t\<bar>"
  proof (cases "0 \<le> t")
    case True
    with bnd have "0 \<le> sin t" by (intro sin_ge_zero) (use pi_gt_zero in linarith)+
    with True show ?thesis by simp
  next
    case False
    then have "0 \<le> - t" "- t \<le> pi" using bnd pi_gt_zero by linarith+
    then have "0 \<le> sin (- t)" by (rule sin_ge_zero)
    with False show ?thesis by simp
  qed
  finally have "arcsin (sqrt ((sin t)\<^sup>2)) = \<bar>t\<bar>"
    using bnd by (simp add: arcsin_sin)
  then have asin: "arcsin (sqrt ((sin t)\<^sup>2)) = \<bar>y - x\<bar> * pi / 360"
    using abs_t by (simp only:)
  show ?thesis
    unfolding calculate_distance_def Let_def a asin by simp
qed

lemma equator_near:
  assumes "\<bar>y - x\<bar> \<le> 3 / 10"
  shows "calculate_distance 0 x 0 y < 50"
proof -
  from assms have "\<bar>y - x\<bar> \<le> 180" by linarith
  then have "calculate_distance 0 x 0 y = \<bar>y - x\<bar> * (6371 * pi / 180)"
    by (rule equator_distance)
  also have "\<dots> \<le> (3 / 10) * (6371 * pi / 180)"
    using assms by (intro mult_right_mono) simp_all
  also have "\<dots> < 50" using pi_less_4 by simp
  finally show ?thesis .
qed

lemma equator_far:
  assumes "1 \<le> \<bar>y - x\<bar>" and "\<bar>y - x\<bar> \<le> 180"
  shows "\<not> calculate_distance 0 x 0 y < 50"
proof -
  have "(50::real) < 1 * (6371 * 2 / 180)" by simp
  also have "\<dots> \<le> 1 * (6371 * pi / 180)" using pi_ge_two by simp
  also have "\<dots> \<le> \<bar>y - x\<bar> * (6371 * pi / 180)"
    using assms(1) by (intro mult_right_mono) simp_all
  also have "\<dots> = calculate_distance 0 x 0 y"
    using equator_distance [OF assms(2)] by simp
  finally show ?thesis by simp
qed

section \<open>Properties of route sequencing\<close>

lemma visit_loop_Nil: "visit_loop la lo [] r t = (r, t)"
  by (simp add: visit_loop.simps)

lemma visit_loop_Cons:
  "visit_loop la lo (x # xs) r t =
     (case find_nearest la lo (x # xs) of
        None \<Rightarrow> (r, t)
      | Some (s, d) \<Rightarrow>
          visit_loop (latitude s) (longitude s) (remove1 s (x # xs)) (r @ [s]) (t + d))"
proof (cases "find_nearest la lo (x # xs)")
  case None
  then show ?thesis using find_nearest_not_None [of "x # xs" la lo] by simp
next
  case (Some p)
  then show ?thesis by (subst visit_loop.simps) (simp split: prod.splits)
qed

lemma visit_loop_mset:
  "visit_loop la lo u r t = (r', t') \<Longrightarrow> mset r' = mset r + mset u"
proof (induction la lo u r t rule: visit_loop.induct)
  case (1 la lo u r t)
  show ?case
  proof (cases "u = []")
    case True
    with "1.prems" show ?thesis by (simp add: visit_loop.simps)
  next
    case False
    then obtain s d where fn: "find_nearest la lo u = Some (s, d)"
      using find_nearest_not_None by fastforce
    then have mem: "s \<in> set u" by (rule find_nearest_mem)
    from "1.prems" False fn
    have "visit_loop (latitude s) (longitude s) (remove1 s u) (r @ [s]) (t + d) = (r', t')"
      by (subst (asm) visit_loop.simps) simp
    from "1.IH"(2) [OF False fn refl this]
    have "mset r' = mset (r @ [s]) + mset (remove1 s u)" .
    with mem show ?thesis by simp
  qed
qed

lemma optimize_route_Inr:
  "\<exists>rr. optimize_route stops v = Inr rr \<and> mset (route rr) = mset stops"
proof (cases "stops = []")
  case True
  then show ?thesis by (simp add: optimize_route_def)
next
  case False
  obtain r t where vl: "visit_loop (current_lat v) (current_lon v) stops [] 0 = (r, t)"
    by (cases "visit_loop (current_lat v) (current_lon v) stops [] 0")
  from visit_loop_mset [OF vl] have "mset r = mset stops" by simp
  with False vl show ?thesis by (simp add: optimize_route_def Let_def)
qed

lemma equator_simps [simp]:
  "latitude (equator_stop sid lon prio dur) = 0"
  "longitude (equator_stop sid lon prio dur) = lon"
  "priority (equator_stop sid lon prio dur) = prio"
  "estimated_duration (equator_stop sid lon prio dur) = dur"
  "current_lat (equator_vehicle vid vlon fuel mx) = 0"
  "current_lon (equator_vehicle vid vlon fuel mx) = vlon"
  "fuel_level (equator_vehicle vid vlon fuel mx) = fuel"
  "max_fuel (equator_vehicle vid vlon fuel mx) = mx"
  "vehicle_id (equator_vehicle vid vlon fuel mx) = vid"
  "equator_stop sid lon prio dur = equator_stop sid' lon' prio' dur' \<longleftrightarrow>
     sid = sid' \<and> lon = lon' \<and> prio = prio' \<and> dur = dur'"
  by (auto simp add: equator_stop_def equator_vehicle_def)

text \<open>What the scan stores with the stop it returns is that stop's raw distance.\<close>

lemma scan_foldl_raw:
  assumes "foldl (scan_step la lo) acc xs = Some (s, d)"
    and "\<forall>s' d'. acc = Some (s', d') \<longrightarrow> d' = calculate_distance la lo (latitude s') (longitude s')"
  shows "d = calculate_distance la lo (latitude s) (longitude s)"
  using assms
proof (induction xs arbitrary: acc)
  case Nil
  then show ?case by simp
next
  case (Cons x xs)
  from Cons.prems(1) have f: "foldl (scan_step la lo) (scan_step la lo acc x) xs = Some (s, d)"
    by simp
  have "\<forall>s' d'. scan_step la lo acc x = Some (s', d') \<longrightarrow>
          d' = calculate_distance la lo (latitude s') (longitude s')"
    using Cons.prems(2) by (auto simp add: scan_step_def Let_def split: if_splits)
  from Cons.IH [OF f this] show ?case .
qed

lemma find_nearest_raw_distance:
  "find_nearest la lo unvisited = Some (s, d) \<Longrightarrow>
     d = calculate_distance la lo (latitude s) (longitude s)"
  using scan_foldl_raw [of la lo None unvisited s d] by (simp add: find_nearest_def)

lemmas route_eval = visit_loop_Nil visit_loop_Cons find_nearest_def scan_step_def
  optimize_route_def equator_distance

text \<open>
  Claim C1: at every iteration the stop chosen next is the one whose adjusted score is
  minimal among the remaining stops, first seen winning ties, and the distance added to
  the running total is the raw distance of the chosen stop. The code stores the raw
  distance of the best stop so far (line 98) and compares the next stop's adjusted
  distance with it (line 97), so the chosen stop need not have the minimal adjusted
  score: from (0, 0) with the stops \<open>A\<close> then \<open>B\<close>, the scan returns \<open>B\<close> although
  the adjusted score of \<open>A\<close> is strictly smaller, and the route is \<open>B\<close>, \<open>A\<close>. The
  accumulated total is the sum of the raw legs.
\<close>

theorem optimize_route_selection_not_minimal:
  "find_nearest 0 0 [stop_A, stop_B] = Some (stop_B, (8 / 100) * (6371 * pi / 180))
   \<and> adjusted_score 0 0 stop_A < adjusted_score 0 0 stop_B
   \<and> optimize_route [stop_A, stop_B] veh_1 =
       Inr \<lparr> rr_vehicle_id = Some ''v1'', route = [stop_B, stop_A],
             total_distance = (10 / 100) * (6371 * pi / 180),
             estimated_time = ((10 / 100) * (6371 * pi / 180) / 40) * 60 + 20,
             stops_count = Some 2,
             optimization_method = Some ''nearest_neighbor_with_priority'' \<rparr>"
proof (intro conjI)
  show "find_nearest 0 0 [stop_A, stop_B] = Some (stop_B, (8 / 100) * (6371 * pi / 180))"
    by (simp add: route_eval stop_A_def stop_B_def)
  show "adjusted_score 0 0 stop_A < adjusted_score 0 0 stop_B"
    by (simp add: adjusted_score_def stop_A_def stop_B_def equator_distance)
  show "optimize_route [stop_A, stop_B] veh_1 =
       Inr \<lparr> rr_vehicle_id = Some ''v1'', route = [stop_B, stop_A],
             total_distance = (10 / 100) * (6371 * pi / 180),
             estimated_time = ((10 / 100) * (6371 * pi / 180) / 40) * 60 + 20,
             stops_count = Some 2,
             optimization_method = Some ''nearest_neighbor_with_priority'' \<rparr>"
    by (simp add: route_eval veh_1_def stop_A_def stop_B_def)
qed

section \<open>Properties of the assignment\<close>

lemma suitable_foldl:
  "foldl (suitable_step v) acc xs = acc @ take (5 - length acc) (filter (within_range v) xs)"
proof (induction xs arbitrary: acc)
  case Nil
  then show ?case by simp
next
  case (Cons x xs)
  show ?case
  proof (cases "length acc < 5 \<and> within_range v x")
    case True
    then have "suitable_step v acc x = acc @ [x]"
      by (simp add: suitable_step_def within_range_def)
    moreover from True obtain n where "5 - length acc = Suc n" "5 - length (acc @ [x]) = n"
      by (cases "5 - length acc") auto
    ultimately show ?thesis using True by (simp add: Cons.IH)
  next
    case False
    then have "suitable_step v acc x = acc"
      by (auto simp add: suitable_step_def within_range_def)
    then show ?thesis using False by (auto simp add: Cons.IH)
  qed
qed

lemma find_suitable_stops_take:
  "find_suitable_stops v pool = take 5 (filter (within_range v) pool)"
  by (simp add: find_suitable_stops_def suitable_foldl)

lemma find_suitable_mset_le: "mset (find_suitable_stops v pool) \<subseteq># mset pool"
proof -
  let ?f = "filter (within_range v) pool"
  have "mset ?f = mset (take 5 ?f) + mset (drop 5 ?f)"
    by (metis append_take_drop_id mset_append)
  then have "mset (take 5 ?f) \<subseteq># mset ?f" by simp
  moreover have "mset ?f \<subseteq># mset pool" by simp
  ultimately show ?thesis unfolding find_suitable_stops_take by (rule subset_mset.order_trans)
qed

lemma remove_all_mset:
  "mset (remove_all_stops u ss) = mset u - mset ss"
  unfolding remove_all_stops_def
  by (induction ss arbitrary: u) (simp_all add: add.commute)

lemma remove_all_subseq: "subseq (remove_all_stops u ss) u"
  unfolding remove_all_stops_def
proof (induction ss arbitrary: u)
  case Nil
  then show ?case by simp
next
  case (Cons s ss)
  have "subseq (remove1 s u) u" by (induction u) auto
  with Cons.IH [of "remove1 s u"] show ?case
    using subseq_order.order_trans by auto
qed

lemma update_fresh:
  "k \<notin> fst ` set al \<Longrightarrow> AList.update k v al = al @ [(k, v)]"
  by (induction al) auto

lemma set_update_subset:
  "set (AList.update k v al) \<subseteq> insert (k, v) (set al)"
  by (induction al) auto

lemma assign_loop_mset:
  assumes "distinct (map vehicle_id vs)"
    and "set (map vehicle_id vs) \<inter> fst ` set A0 = {}"
    and "assign_loop vs A0 U0 = (A, U)"
  shows "mset (all_routes A) + mset U = mset (all_routes A0) + mset U0"
  using assms
proof (induction vs arbitrary: A0 U0)
  case Nil
  then show ?case by (simp add: assign_loop.simps)
next
  case (Cons v vs)
  let ?ss = "find_suitable_stops v U0"
  show ?case
  proof (cases "U0 = [] \<or> ?ss = []")
    case True
    then have "U0 = [] \<or> (U0 \<noteq> [] \<and> ?ss = [])" by blast
    then show ?thesis
    proof
      assume "U0 = []"
      with Cons.prems show ?thesis by (simp add: assign_loop.simps)
    next
      assume h: "U0 \<noteq> [] \<and> ?ss = []"
      with Cons.prems have "assign_loop vs A0 U0 = (A, U)" by (simp add: assign_loop.simps Let_def)
      moreover from Cons.prems have "distinct (map vehicle_id vs)"
        "set (map vehicle_id vs) \<inter> fst ` set A0 = {}" by auto
      ultimately show ?thesis using Cons.IH by blast
    qed
  next
    case False
    obtain rr where rr: "optimize_route ?ss v = Inr rr" "mset (route rr) = mset ?ss"
      using optimize_route_Inr by blast
    let ?A1 = "AList.update (vehicle_id v) rr A0"
    let ?U1 = "remove_all_stops U0 ?ss"
    from False rr Cons.prems have step: "assign_loop vs ?A1 ?U1 = (A, U)"
      by (simp add: assign_loop.simps Let_def)
    from Cons.prems have fresh: "vehicle_id v \<notin> fst ` set A0" by auto
    then have A1: "?A1 = A0 @ [(vehicle_id v, rr)]" by (rule update_fresh)
    from Cons.prems have d: "distinct (map vehicle_id vs)" by simp
    from Cons.prems have "set (map vehicle_id vs) \<inter> fst ` set ?A1 = {}"
      unfolding A1 by auto
    from Cons.IH [OF d this step]
    have "mset (all_routes A) + mset U = mset (all_routes ?A1) + mset ?U1" .
    also have "mset (all_routes ?A1) = mset (all_routes A0) + mset ?ss"
      unfolding A1 by (simp add: all_routes_def rr)
    also have "mset ?U1 = mset U0 - mset ?ss" by (rule remove_all_mset)
    finally show ?thesis
      using find_suitable_mset_le [of v U0] by (simp add: subset_mset.add_diff_inverse)
  qed
qed

lemma assign_loop_empty_pool: "assign_loop vs A [] = (A, [])"
  by (cases vs) (simp_all add: assign_loop.simps)

lemma find_suitable_stops_Nil: "find_suitable_stops v [] = []"
  by (simp add: find_suitable_stops_def)

lemma remove_all_stops_Nil: "remove_all_stops u [] = u"
  by (simp add: remove_all_stops_def)

lemma assign_loop_step:
  "\<exists>A1. assign_loop (w # ws) A0 U0 =
          assign_loop ws A1 (remove_all_stops U0 (find_suitable_stops w U0))
     \<and> (A1 = A0 \<or>
         (\<exists>r1. find_suitable_stops w U0 \<noteq> []
            \<and> optimize_route (find_suitable_stops w U0) w = Inr r1
            \<and> A1 = AList.update (vehicle_id w) r1 A0))"
proof (cases "U0 = []")
  case True
  then have "assign_loop (w # ws) A0 U0 =
      assign_loop ws A0 (remove_all_stops U0 (find_suitable_stops w U0))"
    by (simp add: assign_loop_empty_pool find_suitable_stops_Nil remove_all_stops_Nil)
  then show ?thesis by blast
next
  case False
  show ?thesis
  proof (cases "find_suitable_stops w U0 = []")
    case True
    with False have "assign_loop (w # ws) A0 U0 =
        assign_loop ws A0 (remove_all_stops U0 (find_suitable_stops w U0))"
      by (simp add: assign_loop.simps remove_all_stops_Nil)
    then show ?thesis by blast
  next
    case ne: False
    obtain r1 where r1: "optimize_route (find_suitable_stops w U0) w = Inr r1"
      using optimize_route_Inr by blast
    with False ne have "assign_loop (w # ws) A0 U0 =
        assign_loop ws (AList.update (vehicle_id w) r1 A0)
          (remove_all_stops U0 (find_suitable_stops w U0))"
      by (simp add: assign_loop.simps Let_def)
    with ne r1 show ?thesis by blast
  qed
qed

lemma assign_loop_pool_acc: "snd (assign_loop vs A U) = snd (assign_loop vs [] U)"
proof (induction vs arbitrary: A U)
  case Nil
  show ?case by (simp add: assign_loop.simps)
next
  case (Cons w ws)
  let ?U1 = "remove_all_stops U (find_suitable_stops w U)"
  obtain A1 where "assign_loop (w # ws) A U = assign_loop ws A1 ?U1"
    using assign_loop_step [of w ws A U] by blast
  moreover obtain A2 where "assign_loop (w # ws) [] U = assign_loop ws A2 ?U1"
    using assign_loop_step [of w ws "[]" U] by blast
  ultimately show ?case using Cons.IH [of A1 ?U1] Cons.IH [of A2 ?U1] by simp
qed

lemma pool_before_0: "pool_before order ds 0 = ds"
  by (simp add: pool_before_def assign_loop.simps)

lemma pool_before_Cons:
  "pool_before (w # ws) ds (Suc i) =
     pool_before ws (remove_all_stops ds (find_suitable_stops w ds)) i"
proof -
  let ?U1 = "remove_all_stops ds (find_suitable_stops w ds)"
  obtain A1 where "assign_loop (w # take i ws) [] ds = assign_loop (take i ws) A1 ?U1"
    using assign_loop_step [of w "take i ws" "[]" ds] by blast
  then show ?thesis
    using assign_loop_pool_acc [of "take i ws" A1 ?U1] by (simp add: pool_before_def)
qed

lemma pool_before_Suc:
  "i < length order \<Longrightarrow>
     pool_before order ds (Suc i) =
       remove_all_stops (pool_before order ds i)
         (find_suitable_stops (order ! i) (pool_before order ds i))"
proof (induction order arbitrary: ds i)
  case Nil
  then show ?case by simp
next
  case (Cons w ws)
  show ?case
  proof (cases i)
    case 0
    then show ?thesis by (simp add: pool_before_Cons pool_before_0)
  next
    case (Suc j)
    with Cons.prems have "j < length ws" by simp
    from Cons.IH [OF this] Suc show ?thesis by (simp add: pool_before_Cons)
  qed
qed

lemma pool_before_all:
  "assign_loop order [] ds = (A, U) \<Longrightarrow> pool_before order ds (length order) = U"
  by (simp add: pool_before_def)

lemma pool_before_subseq: "subseq (pool_before order ds i) ds"
proof (induction i arbitrary: order ds)
  case 0
  show ?case by (simp add: pool_before_0)
next
  case (Suc i)
  show ?case
  proof (cases order)
    case Nil
    then show ?thesis by (simp add: pool_before_def assign_loop.simps)
  next
    case (Cons w ws)
    have "subseq (pool_before ws (remove_all_stops ds (find_suitable_stops w ds)) i)
            (remove_all_stops ds (find_suitable_stops w ds))"
      by (rule Suc.IH)
    moreover have "subseq (remove_all_stops ds (find_suitable_stops w ds)) ds"
      by (rule remove_all_subseq)
    ultimately show ?thesis
      unfolding Cons pool_before_Cons by (rule subseq_order.order_trans)
  qed
qed

lemma assign_loop_entry_index:
  assumes "assign_loop vs A0 U0 = (A, U)" and "(k, rr) \<in> set A"
  shows "(k, rr) \<in> set A0 \<or>
     (\<exists>i<length vs. vehicle_id (vs ! i) = k
        \<and> find_suitable_stops (vs ! i) (pool_before vs U0 i) \<noteq> []
        \<and> optimize_route (find_suitable_stops (vs ! i) (pool_before vs U0 i)) (vs ! i) = Inr rr)"
  using assms
proof (induction vs arbitrary: A0 U0)
  case Nil
  then show ?case by (simp add: assign_loop.simps)
next
  case (Cons w ws)
  let ?ss = "find_suitable_stops w U0"
  let ?U1 = "remove_all_stops U0 ?ss"
  obtain A1 where step: "assign_loop (w # ws) A0 U0 = assign_loop ws A1 ?U1"
    and A1: "A1 = A0 \<or> (\<exists>r1. ?ss \<noteq> [] \<and> optimize_route ?ss w = Inr r1
                \<and> A1 = AList.update (vehicle_id w) r1 A0)"
    using assign_loop_step [of w ws A0 U0] by blast
  from step Cons.prems(1) have "assign_loop ws A1 ?U1 = (A, U)" by simp
  from Cons.IH [OF this Cons.prems(2)]
  consider (acc) "(k, rr) \<in> set A1"
    | (later) i where "i < length ws" "vehicle_id (ws ! i) = k"
        "find_suitable_stops (ws ! i) (pool_before ws ?U1 i) \<noteq> []"
        "optimize_route (find_suitable_stops (ws ! i) (pool_before ws ?U1 i)) (ws ! i) = Inr rr"
    by blast
  then show ?case
  proof cases
    case later
    then have "Suc i < length (w # ws) \<and> vehicle_id ((w # ws) ! Suc i) = k
        \<and> find_suitable_stops ((w # ws) ! Suc i) (pool_before (w # ws) U0 (Suc i)) \<noteq> []
        \<and> optimize_route (find_suitable_stops ((w # ws) ! Suc i)
              (pool_before (w # ws) U0 (Suc i))) ((w # ws) ! Suc i) = Inr rr"
      by (simp add: pool_before_Cons)
    then show ?thesis by blast
  next
    case acc
    from A1 show ?thesis
    proof
      assume "A1 = A0"
      with acc show ?thesis by simp
    next
      assume "\<exists>r1. ?ss \<noteq> [] \<and> optimize_route ?ss w = Inr r1
                \<and> A1 = AList.update (vehicle_id w) r1 A0"
      then obtain r1 where r1: "?ss \<noteq> []" "optimize_route ?ss w = Inr r1"
        "A1 = AList.update (vehicle_id w) r1 A0" by blast
      from acc r1(3) have "(k, rr) = (vehicle_id w, r1) \<or> (k, rr) \<in> set A0"
        using set_update_subset [of "vehicle_id w" r1 A0] by auto
      then show ?thesis
      proof
        assume "(k, rr) \<in> set A0"
        then show ?thesis by simp
      next
        assume "(k, rr) = (vehicle_id w, r1)"
        with r1 have "0 < length (w # ws) \<and> vehicle_id ((w # ws) ! 0) = k
          \<and> find_suitable_stops ((w # ws) ! 0) (pool_before (w # ws) U0 0) \<noteq> []
          \<and> optimize_route (find_suitable_stops ((w # ws) ! 0)
                (pool_before (w # ws) U0 0)) ((w # ws) ! 0) = Inr rr"
          by (simp add: pool_before_0)
        then show ?thesis by blast
      qed
    qed
  qed
qed

lemma assign_routes_Inr_iff:
  "assign_routes ds vs now = Inr res \<Longrightarrow> \<not> list_ex (\<lambda>v. max_fuel v = 0) vs \<and>
     (assignments res, unassigned_deliveries res) =
        assign_loop (sort_key (\<lambda>v. - (fuel_level v / max_fuel v)) vs) [] ds"
  by (auto simp add: assign_routes_def Let_def split: if_splits prod.splits)

lemmas range_eval = find_suitable_stops_take within_range_def equator_near equator_far

lemma scnW_suitable1:
  "find_suitable_stops (equator_vehicle ''v1'' 0 50 60) scnW_deliveries =
     [equator_stop ''s1'' (1 / 4) 3 15, equator_stop ''s2'' (1 / 5) 3 15,
      equator_stop ''s3'' (3 / 20) 3 15, equator_stop ''s4'' (1 / 10) 3 15,
      equator_stop ''s5'' (1 / 20) 3 15]"
  by (simp add: range_eval scnW_deliveries_def)

lemma scnW_opt1:
  "optimize_route
     [equator_stop ''s1'' (1 / 4) 3 15, equator_stop ''s2'' (1 / 5) 3 15,
      equator_stop ''s3'' (3 / 20) 3 15, equator_stop ''s4'' (1 / 10) 3 15,
      equator_stop ''s5'' (1 / 20) 3 15] (equator_vehicle ''v1'' 0 50 60) = Inr scnW_route1"
  by (simp add: route_eval scnW_route1_def)

lemma scnW_suitable2:
  "find_suitable_stops (equator_vehicle ''v2'' 0 30 60)
     [equator_stop ''far'' 10 3 15, equator_stop ''s6'' (1 / 100) 3 15] =
     [equator_stop ''s6'' (1 / 100) 3 15]"
  by (simp add: range_eval)

lemma scnW_opt2:
  "optimize_route [equator_stop ''s6'' (1 / 100) 3 15] (equator_vehicle ''v2'' 0 30 60) =
     Inr scnW_route2"
  by (simp add: route_eval scnW_route2_def)

lemma scnW_sorted:
  "sort_key (\<lambda>v. - (fuel_level v / max_fuel v)) scnW_vehicles =
     [equator_vehicle ''v1'' 0 50 60, equator_vehicle ''v2'' 0 30 60]"
  by (simp add: scnW_vehicles_def)

lemma scnW_remove1:
  "remove_all_stops scnW_deliveries
     [equator_stop ''s1'' (1 / 4) 3 15, equator_stop ''s2'' (1 / 5) 3 15,
      equator_stop ''s3'' (3 / 20) 3 15, equator_stop ''s4'' (1 / 10) 3 15,
      equator_stop ''s5'' (1 / 20) 3 15] =
     [equator_stop ''far'' 10 3 15, equator_stop ''s6'' (1 / 100) 3 15]"
  by (simp add: remove_all_stops_def scnW_deliveries_def)

lemma scnW_eval: "assign_routes scnW_deliveries scnW_vehicles now = Inr (scnW_result now)"
proof -
  have sorted: "sort_key (\<lambda>v. - (fuel_level v / max_fuel v)) scnW_vehicles =
      [equator_vehicle ''v1'' 0 50 60, equator_vehicle ''v2'' 0 30 60]"
    by (simp add: scnW_vehicles_def)
  have rem1: "remove_all_stops scnW_deliveries
      [equator_stop ''s1'' (1 / 4) 3 15, equator_stop ''s2'' (1 / 5) 3 15,
       equator_stop ''s3'' (3 / 20) 3 15, equator_stop ''s4'' (1 / 10) 3 15,
       equator_stop ''s5'' (1 / 20) 3 15] =
      [equator_stop ''far'' 10 3 15, equator_stop ''s6'' (1 / 100) 3 15]"
    by (simp add: remove_all_stops_def scnW_deliveries_def)
  have loop: "assign_loop [equator_vehicle ''v1'' 0 50 60, equator_vehicle ''v2'' 0 30 60] []
      scnW_deliveries =
      ([(''v1'', scnW_route1), (''v2'', scnW_route2)], [equator_stop ''far'' 10 3 15])"
    apply (simp add: assign_loop.simps scnW_suitable1 scnW_opt1 rem1 Let_def)
    apply (simp add: assign_loop.simps scnW_deliveries_def scnW_suitable2 scnW_opt2
        remove_all_stops_def)
    done
  have nz: "\<not> list_ex (\<lambda>v. max_fuel v = 0) scnW_vehicles"
    by (simp add: scnW_vehicles_def)
  show ?thesis
    unfolding assign_routes_def Let_def sorted loop
    using nz by (simp add: scnW_result_def scnW_deliveries_def)
qed

lemma dupid_eval: "assign_routes dupid_deliveries dupid_vehicles ''t'' = Inr dupid_result"
proof -
  have sorted: "sort_key (\<lambda>v. - (fuel_level v / max_fuel v)) dupid_vehicles = dupid_vehicles"
    by (simp add: dupid_vehicles_def)
  have s1: "find_suitable_stops (equator_vehicle ''v1'' 0 50 60) dupid_deliveries =
      [equator_stop ''d1'' 0 3 15]"
    by (simp add: range_eval dupid_deliveries_def)
  have o1: "optimize_route [equator_stop ''d1'' 0 3 15] (equator_vehicle ''v1'' 0 50 60) =
      Inr (single_stop_route ''v1'' (equator_stop ''d1'' 0 3 15))"
    by (simp add: route_eval single_stop_route_def)
  have s2: "find_suitable_stops (equator_vehicle ''v1'' 10 30 60) [equator_stop ''d2'' 10 3 15] =
      [equator_stop ''d2'' 10 3 15]"
    by (simp add: range_eval)
  have o2: "optimize_route [equator_stop ''d2'' 10 3 15] (equator_vehicle ''v1'' 10 30 60) =
      Inr (single_stop_route ''v1'' (equator_stop ''d2'' 10 3 15))"
    by (simp add: route_eval single_stop_route_def)
  have loop: "assign_loop dupid_vehicles [] dupid_deliveries =
      ([(''v1'', single_stop_route ''v1'' (equator_stop ''d2'' 10 3 15))], [])"
    unfolding dupid_vehicles_def
    apply (simp add: assign_loop.simps s1 o1 Let_def)
    apply (simp add: assign_loop.simps dupid_deliveries_def remove_all_stops_def s2 o2)
    done
  have nz: "\<not> list_ex (\<lambda>v. max_fuel v = 0) dupid_vehicles"
    by (simp add: dupid_vehicles_def)
  show ?thesis
    unfolding assign_routes_def Let_def sorted loop
    using nz by (simp add: dupid_result_def dupid_deliveries_def)
qed

lemma scnB_eval:
  "assign_routes scnB_deliveries [scnB_vehicle] now =
     Inr \<lparr> assignments = [], unassigned_deliveries = scnB_deliveries,
           total_vehicles_used = 0, total_deliveries_assigned = 0,
           optimization_timestamp = now \<rparr>"
proof -
  have s: "find_suitable_stops scnB_vehicle scnB_deliveries = []"
    by (simp add: range_eval scnB_vehicle_def scnB_deliveries_def)
  have ne: "scnB_deliveries \<noteq> []" by (simp add: scnB_deliveries_def)
  have loop: "assign_loop [scnB_vehicle] [] scnB_deliveries = ([], scnB_deliveries)"
    by (simp add: assign_loop.simps s ne)
  have nz: "\<not> list_ex (\<lambda>v. max_fuel v = 0) [scnB_vehicle]"
    by (simp add: scnB_vehicle_def)
  show ?thesis
    unfolding assign_routes_def Let_def
    using nz by (simp add: loop)
qed

text \<open>
  Claim C2, as the code has it: when the vehicles have pairwise distinct identifiers and
  \<open>assign_routes\<close> returns a result (no vehicle has \<open>max_fuel = 0\<close>), the stops of all
  returned routes together with the unassigned stops are, as a multiset, exactly the
  submitted deliveries; if moreover no delivery is submitted twice, the assigned and the
  unassigned stops are disjoint and no stop occurs twice in the routes, so none is in
  the routes of two vehicles.
\<close>

theorem assign_routes_partition:
  assumes "distinct (map vehicle_id vehicles)"
    and "assign_routes deliveries vehicles now = Inr res"
  shows "mset (all_routes (assignments res)) + mset (unassigned_deliveries res) = mset deliveries
    \<and> (distinct deliveries \<longrightarrow>
         set (all_routes (assignments res)) \<inter> set (unassigned_deliveries res) = {}
         \<and> distinct (all_routes (assignments res)))"
proof -
  let ?vs = "sort_key (\<lambda>v. - (fuel_level v / max_fuel v)) vehicles"
  from assms(2) have al: "assign_loop ?vs [] deliveries = (assignments res, unassigned_deliveries res)"
    using assign_routes_Inr_iff by metis
  have "mset (map vehicle_id ?vs) = mset (map vehicle_id vehicles)" by simp
  then have d: "distinct (map vehicle_id ?vs)"
    using assms(1) mset_eq_imp_distinct_iff by blast
  have "set (map vehicle_id ?vs) \<inter> fst ` set ([] :: (string \<times> RouteResult) list) = {}" by simp
  from assign_loop_mset [OF d this al]
  have m: "mset (all_routes (assignments res)) + mset (unassigned_deliveries res) = mset deliveries"
    by (simp add: all_routes_def)
  show ?thesis
  proof (intro conjI impI)
    show "mset (all_routes (assignments res)) + mset (unassigned_deliveries res) = mset deliveries"
      by (rule m)
  next
    assume dd: "distinct deliveries"
    from m have "mset (all_routes (assignments res) @ unassigned_deliveries res) = mset deliveries"
      by simp
    then have "distinct (all_routes (assignments res) @ unassigned_deliveries res)"
      using dd mset_eq_imp_distinct_iff by blast
    then show "set (all_routes (assignments res)) \<inter> set (unassigned_deliveries res) = {}"
      and "distinct (all_routes (assignments res))"
      by simp_all
  qed
qed

theorem assign_routes_partition_witness:
  "distinct (map vehicle_id scnW_vehicles)
   \<and> assign_routes scnW_deliveries scnW_vehicles ''t'' = Inr (scnW_result ''t'')
   \<and> mset (all_routes (assignments (scnW_result ''t'')))
        + mset (unassigned_deliveries (scnW_result ''t'')) = mset scnW_deliveries
   \<and> distinct scnW_deliveries
   \<and> set (all_routes (assignments (scnW_result ''t'')))
        \<inter> set (unassigned_deliveries (scnW_result ''t'')) = {}
   \<and> distinct (all_routes (assignments (scnW_result ''t'')))"
proof -
  have h1: "distinct (map vehicle_id scnW_vehicles)" by (simp add: scnW_vehicles_def)
  have h2: "assign_routes scnW_deliveries scnW_vehicles ''t'' = Inr (scnW_result ''t'')"
    by (rule scnW_eval)
  have h3: "distinct scnW_deliveries" by (simp add: scnW_deliveries_def)
  from assign_routes_partition [OF h1 h2] h1 h2 h3 show ?thesis by blast
qed

text \<open>
  Claim C2 as stated, for any vehicle list, fails: two vehicles with the same
  identifier overwrite each other's entry of the dictionary, and the stops of the first
  are neither in a returned route nor unassigned.
\<close>

theorem assign_routes_partition_counterexample:
  "assign_routes dupid_deliveries dupid_vehicles ''t'' = Inr dupid_result
   \<and> mset (all_routes (assignments dupid_result)) + mset (unassigned_deliveries dupid_result)
       \<noteq> mset dupid_deliveries"
  by (simp add: dupid_eval) (simp add: dupid_result_def dupid_deliveries_def all_routes_def
        single_stop_route_def)

text \<open>
  Claim C3: in every run that returns a result, let the vehicles be taken in the sorted
  order and let \<open>pool i\<close> be the pool of unassigned deliveries when the loop reaches
  vehicle \<open>i\<close>: the pool starts as the submitted deliveries, each vehicle removes from
  it the first (at most five) stops, in pool order, that lie within 50 km of the
  vehicle's position, and what is left after the last vehicle is returned unassigned.
  Every entry of the returned assignments was written for a vehicle \<open>i\<close> of that
  order: the stops handed to \<open>optimize_route\<close> are exactly those first (at most five)
  stops within range of \<open>pool i\<close>, whatever their distances are, the route is a
  permutation of them, so it has at most five stops, each less than 50 km from the
  vehicle's starting position.
\<close>

theorem assign_routes_candidates:
  assumes "assign_routes deliveries vehicles now = Inr res"
    and "(k, rr) \<in> set (assignments res)"
  shows "let order = sort_key (\<lambda>v. - (fuel_level v / max_fuel v)) vehicles;
             pool = pool_before order deliveries
         in pool 0 = deliveries
          \<and> (\<forall>j<length order.
                pool (Suc j) =
                  remove_all_stops (pool j) (take 5 (filter (within_range (order ! j)) (pool j))))
          \<and> unassigned_deliveries res = pool (length order)
          \<and> (\<exists>i<length order.
                let v = order ! i;
                    candidates = take 5 (filter (within_range v) (pool i))
                in v \<in> set vehicles \<and> vehicle_id v = k
                 \<and> subseq (pool i) deliveries
                 \<and> find_suitable_stops v (pool i) = candidates
                 \<and> candidates \<noteq> []
                 \<and> optimize_route candidates v = Inr rr
                 \<and> mset (route rr) = mset candidates
                 \<and> length (route rr) \<le> 5
                 \<and> (\<forall>s \<in> set (route rr).
                      calculate_distance (current_lat v) (current_lon v)
                        (latitude s) (longitude s) < 50))"
proof -
  define order where "order = sort_key (\<lambda>v. - (fuel_level v / max_fuel v)) vehicles"
  define pool where "pool = pool_before order deliveries"
  from assms(1) have al: "assign_loop order [] deliveries =
      (assignments res, unassigned_deliveries res)"
    unfolding order_def using assign_routes_Inr_iff by metis
  have p0: "pool 0 = deliveries" by (simp add: pool_def pool_before_0)
  have pS: "\<forall>j<length order.
      pool (Suc j) = remove_all_stops (pool j) (take 5 (filter (within_range (order ! j)) (pool j)))"
    by (simp add: pool_def pool_before_Suc find_suitable_stops_take)
  have pN: "unassigned_deliveries res = pool (length order)"
    using pool_before_all [OF al] by (simp add: pool_def)
  from assign_loop_entry_index [OF al assms(2)]
  obtain i where i: "i < length order" "vehicle_id (order ! i) = k"
    and ne: "find_suitable_stops (order ! i) (pool i) \<noteq> []"
    and opt: "optimize_route (find_suitable_stops (order ! i) (pool i)) (order ! i) = Inr rr"
    unfolding pool_def by auto
  let ?v = "order ! i"
  let ?c = "take 5 (filter (within_range ?v) (pool i))"
  have fs: "find_suitable_stops ?v (pool i) = ?c" by (rule find_suitable_stops_take)
  from i(1) have "?v \<in> set order" by simp
  then have mem: "?v \<in> set vehicles" by (simp add: order_def)
  have sub: "subseq (pool i) deliveries" by (simp add: pool_def pool_before_subseq)
  from ne have cne: "?c \<noteq> []" unfolding fs .
  from opt have o: "optimize_route ?c ?v = Inr rr" unfolding fs .
  with optimize_route_Inr [of ?c ?v] have m: "mset (route rr) = mset ?c" by auto
  from m have "length (route rr) = length ?c" by (rule mset_eq_length)
  then have len: "length (route rr) \<le> 5" by simp
  from m have "set (route rr) = set ?c" by (rule mset_eq_setD)
  also have "\<dots> \<subseteq> set (filter (within_range ?v) (pool i))" by (rule set_take_subset)
  finally have rng: "\<forall>s \<in> set (route rr).
      calculate_distance (current_lat ?v) (current_lon ?v) (latitude s) (longitude s) < 50"
    by (auto simp add: within_range_def)
  have "\<exists>i<length order.
          let v = order ! i; candidates = take 5 (filter (within_range v) (pool i))
          in v \<in> set vehicles \<and> vehicle_id v = k
                 \<and> subseq (pool i) deliveries
                 \<and> find_suitable_stops v (pool i) = candidates
                 \<and> candidates \<noteq> []
                 \<and> optimize_route candidates v = Inr rr
                 \<and> mset (route rr) = mset candidates
                 \<and> length (route rr) \<le> 5
                 \<and> (\<forall>s \<in> set (route rr).
                      calculate_distance (current_lat v) (current_lon v)
                        (latitude s) (longitude s) < 50)"
    unfolding Let_def using i(1) mem i(2) sub fs cne o m len rng by blast
  with p0 pS pN show ?thesis
    unfolding Let_def order_def [symmetric] pool_def [symmetric] by blast
qed

text \<open>
  In the run below the first vehicle of the order finds six stops within range; it is
  given the first five of the pool, and the sixth, which is nearer than each of them,
  stays in the pool for the next vehicle.
\<close>

theorem assign_routes_candidates_witness:
  "assign_routes scnW_deliveries scnW_vehicles ''t'' = Inr (scnW_result ''t'')
   \<and> (''v1'', scnW_route1) \<in> set (assignments (scnW_result ''t''))
   \<and> (let order = sort_key (\<lambda>v. - (fuel_level v / max_fuel v)) scnW_vehicles;
           pool = pool_before order scnW_deliveries
       in pool 0 = scnW_deliveries
          \<and> (\<forall>j<length order.
                pool (Suc j) =
                  remove_all_stops (pool j) (take 5 (filter (within_range (order ! j)) (pool j))))
          \<and> unassigned_deliveries (scnW_result ''t'') = pool (length order)
          \<and> (\<exists>i<length order.
                let v = order ! i;
                    candidates = take 5 (filter (within_range v) (pool i))
                in v \<in> set scnW_vehicles \<and> vehicle_id v = ''v1''
                 \<and> subseq (pool i) scnW_deliveries
                 \<and> find_suitable_stops v (pool i) = candidates
                 \<and> candidates \<noteq> []
                 \<and> optimize_route candidates v = Inr scnW_route1
                 \<and> mset (route scnW_route1) = mset candidates
                 \<and> length (route scnW_route1) \<le> 5
                 \<and> (\<forall>s \<in> set (route scnW_route1).
                      calculate_distance (current_lat v) (current_lon v)
                        (latitude s) (longitude s) < 50)))
   \<and> sort_key (\<lambda>v. - (fuel_level v / max_fuel v)) scnW_vehicles =
        [equator_vehicle ''v1'' 0 50 60, equator_vehicle ''v2'' 0 30 60]
   \<and> take 5 (filter (within_range (equator_vehicle ''v1'' 0 50 60)) scnW_deliveries) =
        [equator_stop ''s1'' (1 / 4) 3 15, equator_stop ''s2'' (1 / 5) 3 15,
         equator_stop ''s3'' (3 / 20) 3 15, equator_stop ''s4'' (1 / 10) 3 15,
         equator_stop ''s5'' (1 / 20) 3 15]
   \<and> pool_before [equator_vehicle ''v1'' 0 50 60, equator_vehicle ''v2'' 0 30 60]
        scnW_deliveries 1 =
        [equator_stop ''far'' 10 3 15, equator_stop ''s6'' (1 / 100) 3 15]
   \<and> within_range (equator_vehicle ''v1'' 0 50 60) (equator_stop ''s6'' (1 / 100) 3 15)
   \<and> calculate_distance 0 0 0 (1 / 100) < calculate_distance 0 0 0 (1 / 20)"
proof -
  have h1: "assign_routes scnW_deliveries scnW_vehicles ''t'' = Inr (scnW_result ''t'')"
    by (rule scnW_eval)
  have h2: "(''v1'', scnW_route1) \<in> set (assignments (scnW_result ''t''))"
    by (simp add: scnW_result_def)
  note main = assign_routes_candidates [OF h1 h2]
  have tk: "take 5 (filter (within_range (equator_vehicle ''v1'' 0 50 60)) scnW_deliveries) =
        [equator_stop ''s1'' (1 / 4) 3 15, equator_stop ''s2'' (1 / 5) 3 15,
         equator_stop ''s3'' (3 / 20) 3 15, equator_stop ''s4'' (1 / 10) 3 15,
         equator_stop ''s5'' (1 / 20) 3 15]"
    using scnW_suitable1 by (simp only: find_suitable_stops_take)
  have "pool_before [equator_vehicle ''v1'' 0 50 60, equator_vehicle ''v2'' 0 30 60]
        scnW_deliveries (Suc 0) =
        [equator_stop ''far'' 10 3 15, equator_stop ''s6'' (1 / 100) 3 15]"
    by (simp add: pool_before_Suc pool_before_0 scnW_suitable1 scnW_remove1)
  then have p1: "pool_before [equator_vehicle ''v1'' 0 50 60, equator_vehicle ''v2'' 0 30 60]
        scnW_deliveries 1 =
        [equator_stop ''far'' 10 3 15, equator_stop ''s6'' (1 / 100) 3 15]"
    by simp
  have w6: "within_range (equator_vehicle ''v1'' 0 50 60) (equator_stop ''s6'' (1 / 100) 3 15)"
    by (simp add: within_range_def equator_near)
  have nearer: "calculate_distance 0 0 0 (1 / 100) < calculate_distance 0 0 0 (1 / 20)"
    by (simp add: equator_distance)
  from h1 h2 main scnW_sorted tk p1 w6 nearer show ?thesis by (intro conjI)
qed

text \<open>
  Claim C4 as stated fails: in Scenario B both deliveries are farther than 50 km from
  the vehicle, so nothing is assigned.
\<close>

theorem scenario_B_counterexample:
  "assign_routes scnB_deliveries [scnB_vehicle] ''t'' =
     Inr \<lparr> assignments = [], unassigned_deliveries = scnB_deliveries,
           total_vehicles_used = 0, total_deliveries_assigned = 0,
           optimization_timestamp = ''t'' \<rparr>"
  by (rule scnB_eval)

text \<open>
  Claim C4, as the code has it: in Scenario B the two deliveries are \<open>6371 * pi / 180\<close>
  (about 111 km) and twice that from the vehicle, not under 50 km, so both are returned
  unassigned and no vehicle is used. With the two longitudes divided by ten both
  deliveries are assigned to the one vehicle, visited in the order given, and the
  reported \<open>total_distance\<close> is the sum of the raw distances of the two legs.
\<close>

theorem scenario_B_outcome:
  "calculate_distance 0 0 0 1 = 6371 * pi / 180
   \<and> calculate_distance 0 0 0 2 = 2 * (6371 * pi / 180)
   \<and> \<not> calculate_distance 0 0 0 1 < 50
   \<and> \<not> calculate_distance 0 0 0 2 < 50
   \<and> assign_routes scnB_deliveries [scnB_vehicle] now =
       Inr \<lparr> assignments = [], unassigned_deliveries = scnB_deliveries,
             total_vehicles_used = 0, total_deliveries_assigned = 0,
             optimization_timestamp = now \<rparr>
   \<and> assign_routes scnB_near_deliveries [scnB_vehicle] now =
       Inr \<lparr> assignments =
               [(''v1'', \<lparr> rr_vehicle_id = Some ''v1'', route = scnB_near_deliveries,
                     total_distance = calculate_distance 0 0 0 (1 / 10)
                                      + calculate_distance 0 (1 / 10) 0 (1 / 5),
                     estimated_time = ((calculate_distance 0 0 0 (1 / 10)
                                      + calculate_distance 0 (1 / 10) 0 (1 / 5)) / 40) * 60 + 20,
                     stops_count = Some 2,
                     optimization_method = Some ''nearest_neighbor_with_priority'' \<rparr>)],
             unassigned_deliveries = [],
             total_vehicles_used = 1, total_deliveries_assigned = 2,
             optimization_timestamp = now \<rparr>"
proof (intro conjI)
  show "calculate_distance 0 0 0 1 = 6371 * pi / 180"
    by (simp add: equator_distance)
  show "calculate_distance 0 0 0 2 = 2 * (6371 * pi / 180)"
    by (simp add: equator_distance)
  show "\<not> calculate_distance 0 0 0 1 < 50" by (simp add: equator_far)
  show "\<not> calculate_distance 0 0 0 2 < 50" by (simp add: equator_far)
  show "assign_routes scnB_deliveries [scnB_vehicle] now =
       Inr \<lparr> assignments = [], unassigned_deliveries = scnB_deliveries,
             total_vehicles_used = 0, total_deliveries_assigned = 0,
             optimization_timestamp = now \<rparr>"
    by (rule scnB_eval)
  have s: "find_suitable_stops scnB_vehicle scnB_near_deliveries = scnB_near_deliveries"
    by (simp add: range_eval scnB_vehicle_def scnB_near_deliveries_def)
  have o: "optimize_route scnB_near_deliveries scnB_vehicle =
      Inr \<lparr> rr_vehicle_id = Some ''v1'', route = scnB_near_deliveries,
                     total_distance = calculate_distance 0 0 0 (1 / 10)
                                      + calculate_distance 0 (1 / 10) 0 (1 / 5),
                     estimated_time = ((calculate_distance 0 0 0 (1 / 10)
                                      + calculate_distance 0 (1 / 10) 0 (1 / 5)) / 40) * 60 + 20,
                     stops_count = Some 2,
                     optimization_method = Some ''nearest_neighbor_with_priority'' \<rparr>"
    by (simp add: route_eval scnB_vehicle_def scnB_near_deliveries_def)
  have r: "remove_all_stops scnB_near_deliveries scnB_near_deliveries = []"
    by (simp add: remove_all_stops_def scnB_near_deliveries_def)
  have ne: "scnB_near_deliveries \<noteq> []" by (simp add: scnB_near_deliveries_def)
  have vid: "vehicle_id scnB_vehicle = ''v1''" by (simp add: scnB_vehicle_def)
  have loop: "assign_loop [scnB_vehicle] [] scnB_near_deliveries =
      ([(''v1'', \<lparr> rr_vehicle_id = Some ''v1'', route = scnB_near_deliveries,
                     total_distance = calculate_distance 0 0 0 (1 / 10)
                                      + calculate_distance 0 (1 / 10) 0 (1 / 5),
                     estimated_time = ((calculate_distance 0 0 0 (1 / 10)
                                      + calculate_distance 0 (1 / 10) 0 (1 / 5)) / 40) * 60 + 20,
                     stops_count = Some 2,
                     optimization_method = Some ''nearest_neighbor_with_priority'' \<rparr>)], [])"
    by (simp add: assign_loop.simps s o r ne vid)
  have nz: "\<not> list_ex (\<lambda>v. max_fuel v = 0) [scnB_vehicle]"
    by (simp add: scnB_vehicle_def)
  show "assign_routes scnB_near_deliveries [scnB_vehicle] now =
       Inr \<lparr> assignments =
               [(''v1'', \<lparr> rr_vehicle_id = Some ''v1'', route = scnB_near_deliveries,
                     total_distance = calculate_distance 0 0 0 (1 / 10)
                                      + calculate_distance 0 (1 / 10) 0 (1 / 5),
                     estimated_time = ((calculate_distance 0 0 0 (1 / 10)
                                      + calculate_distance 0 (1 / 10) 0 (1 / 5)) / 40) * 60 + 20,
                     stops_count = Some 2,
                     optimization_method = Some ''nearest_neighbor_with_priority'' \<rparr>)],
             unassigned_deliveries = [],
             total_vehicles_used = 1, total_deliveries_assigned = 2,
             optimization_timestamp = now \<rparr>"
    unfolding assign_routes_def Let_def
    using nz by (simp add: loop) (simp add: scnB_near_deliveries_def)
qed

section \<open>Properties of the fuel evaluation\<close>

text \<open>
  Claim C7, as the code has it: for every vehicle whose \<open>max_fuel\<close> is not zero and
  every route distance, \<open>calculate_fuel_efficiency\<close> returns a record with consumption
  \<open>distance * 0.08\<close>, deficit \<open>max 0 (consumption - fuel_level)\<close> and \<open>needs_refuel\<close>
  true exactly when the deficit exceeds 5; the deficit does not decrease when the
  distance grows.
\<close>

theorem calculate_fuel_efficiency_result:
  assumes "max_fuel vehicle \<noteq> 0"
  shows "\<exists>r. calculate_fuel_efficiency vehicle d = Inr r
      \<and> estimated_fuel_consumption r = d * 0.08
      \<and> fuel_deficit r = max 0 (d * 0.08 - fuel_level vehicle)
      \<and> (needs_refuel r \<longleftrightarrow> fuel_deficit r > 5)
      \<and> (\<forall>d' r'. d \<le> d' \<and> calculate_fuel_efficiency vehicle d' = Inr r'
            \<longrightarrow> fuel_deficit r \<le> fuel_deficit r')"
  using assms by (auto simp add: calculate_fuel_efficiency_def Let_def)

theorem calculate_fuel_efficiency_result_witness:
  "max_fuel (equator_vehicle ''v1'' 0 50 60) \<noteq> 0
   \<and> (\<exists>r. calculate_fuel_efficiency (equator_vehicle ''v1'' 0 50 60) 700 = Inr r
      \<and> estimated_fuel_consumption r = 700 * 0.08
      \<and> fuel_deficit r = max 0 (700 * 0.08 - fuel_level (equator_vehicle ''v1'' 0 50 60))
      \<and> (needs_refuel r \<longleftrightarrow> fuel_deficit r > 5)
      \<and> (\<forall>d' r'. 700 \<le> d' \<and> calculate_fuel_efficiency (equator_vehicle ''v1'' 0 50 60) d' = Inr r'
            \<longrightarrow> fuel_deficit r \<le> fuel_deficit r'))"
proof -
  have h: "max_fuel (equator_vehicle ''v1'' 0 50 60) \<noteq> 0" by simp
  show ?thesis by (rule conjI [OF h calculate_fuel_efficiency_result [OF h]])
qed

text \<open>
  Claim C7 as stated, for every vehicle, fails: with \<open>max_fuel = 0\<close> the division for
  \<open>fuel_percentage\<close> raises and the function returns an error instead of the record.
\<close>

theorem calculate_fuel_efficiency_counterexample:
  "calculate_fuel_efficiency (equator_vehicle ''v1'' 0 50 0) 100 = Inl ZeroDivisionError"
  by (simp add: calculate_fuel_efficiency_def)

section \<open>Properties of the recommendations\<close>

lemma vehicle_recommendations_ok:
  "\<not> list_ex (\<lambda>v. max_fuel v = 0) vs \<Longrightarrow>
     vehicle_recommendations vs recs = Inr (recs @ concat (map vehicle_level vs))"
  by (induction vs arbitrary: recs) (simp_all add: vehicle_level_def fuel_ratio_def Let_def)

lemma vehicle_recommendations_zero:
  "list_ex (\<lambda>v. max_fuel v = 0) vs \<Longrightarrow> vehicle_recommendations vs recs = Inl ZeroDivisionError"
  by (induction vs arbitrary: recs) (auto simp add: Let_def)

lemma get_recommendations_ok:
  assumes "\<not> list_ex (\<lambda>v. max_fuel v = 0) (svc_vehicles s)"
  shows "get_optimization_recommendations s =
     concat (map vehicle_level (svc_vehicles s)) @ ledger_level (optimization_history s)"
  using assms
  by (simp add: get_optimization_recommendations_def vehicle_recommendations_ok ledger_level_def
      Let_def)

lemma get_recommendations_zero:
  "list_ex (\<lambda>v. max_fuel v = 0) (svc_vehicles s) \<Longrightarrow> get_optimization_recommendations s = []"
  by (simp add: get_optimization_recommendations_def vehicle_recommendations_zero)

lemma vehicle_level_kind:
  "r \<in> set (vehicle_level v) \<Longrightarrow>
     (rec_kind r = fuel_alert \<or> rec_kind r = fuel_warning) \<and> rec_vehicle_id r = Some (vehicle_id v)"
  by (auto simp add: vehicle_level_def fuel_alert_for_def fuel_warning_for_def split: if_splits)

lemma ledger_level_kind:
  "r \<in> set (ledger_level h) \<Longrightarrow> rec_kind r = efficiency_improvement \<and> rec_vehicle_id r = None"
  by (auto simp add: ledger_level_def efficiency_recommendation_def Let_def split: if_splits)

lemma efficiency_entries_vehicle: "efficiency_entries (concat (map vehicle_level vs)) = []"
proof -
  have "\<forall>r \<in> set (concat (map vehicle_level vs)). rec_kind r \<noteq> efficiency_improvement"
    using vehicle_level_kind by fastforce
  then show ?thesis unfolding efficiency_entries_def by (simp add: filter_empty_conv)
qed

lemma efficiency_entries_ledger: "efficiency_entries (ledger_level h) = ledger_level h"
  unfolding efficiency_entries_def using ledger_level_kind by (simp add: filter_id_conv)

lemma sum_list_const:
  "\<forall>x \<in> set xs. f x = (c::real) \<Longrightarrow> sum_list (map f xs) = real (length xs) * c"
  by (induction xs) (simp_all add: algebra_simps)

lemma ledger_level_const:
  assumes "length h > 5" and "\<forall>r \<in> set (drop (length h - 5) h). efficiency_score r = c"
  shows "ledger_level h = (if c < 0.7 then [efficiency_recommendation c] else [])"
proof -
  have "length (drop (length h - 5) h) = 5" using assms(1) by simp
  with sum_list_const [OF assms(2)]
  have "sum_list (map efficiency_score (drop (length h - 5) h)) = 5 * c" by simp
  with assms(1) show ?thesis by (simp add: ledger_level_def)
qed

lemma state_simps [simp]:
  "svc_vehicles (state_with_history h) = []"
  "optimization_history (state_with_history h) = h"
  "svc_vehicles (state_with_vehicles vs) = vs"
  "optimization_history (state_with_vehicles vs) = []"
  "svc_vehicles initial_state = []"
  "optimization_history initial_state = []"
  by (simp_all add: state_with_history_def state_with_vehicles_def initial_state_def)

text \<open>
  Claim C8, as the code has it: when no vehicle of the fleet state has \<open>max_fuel = 0\<close>,
  the output is the vehicle-level recommendations in vehicle order followed by the
  recommendation derived from the history; a vehicle gets a \<open>fuel_alert\<close> exactly
  when its ratio is below 20, a \<open>fuel_warning\<close> exactly when the ratio is at least 20
  and below 40, and nothing exactly when the ratio is at least 40; the part derived from
  the history holds at most one entry, of kind \<open>efficiency_improvement\<close>.
\<close>

theorem vehicle_recommendations_thresholds:
  assumes "\<not> list_ex (\<lambda>v. max_fuel v = 0) (svc_vehicles s)"
  shows "get_optimization_recommendations s =
       concat (map vehicle_level (svc_vehicles s)) @ ledger_level (optimization_history s)
     \<and> (\<forall>v \<in> set (svc_vehicles s).
          ((\<exists>r. vehicle_level v = [r] \<and> rec_kind r = fuel_alert \<and>
                 rec_vehicle_id r = Some (vehicle_id v))
             \<longleftrightarrow> fuel_level v / max_fuel v * 100 < 20)
        \<and> ((\<exists>r. vehicle_level v = [r] \<and> rec_kind r = fuel_warning \<and>
                 rec_vehicle_id r = Some (vehicle_id v))
             \<longleftrightarrow> 20 \<le> fuel_level v / max_fuel v * 100 \<and> fuel_level v / max_fuel v * 100 < 40)
        \<and> (vehicle_level v = [] \<longleftrightarrow> 40 \<le> fuel_level v / max_fuel v * 100))
     \<and> (\<forall>r \<in> set (ledger_level (optimization_history s)).
          rec_kind r = efficiency_improvement \<and> rec_vehicle_id r = None)
     \<and> length (ledger_level (optimization_history s)) \<le> 1"
proof (intro conjI ballI)
  show "get_optimization_recommendations s =
       concat (map vehicle_level (svc_vehicles s)) @ ledger_level (optimization_history s)"
    using assms by (rule get_recommendations_ok)
next
  fix v
  show "(\<exists>r. vehicle_level v = [r] \<and> rec_kind r = fuel_alert \<and>
                 rec_vehicle_id r = Some (vehicle_id v))
             \<longleftrightarrow> fuel_level v / max_fuel v * 100 < 20"
    by (auto simp add: vehicle_level_def fuel_ratio_def fuel_alert_for_def fuel_warning_for_def)
  show "(\<exists>r. vehicle_level v = [r] \<and> rec_kind r = fuel_warning \<and>
                 rec_vehicle_id r = Some (vehicle_id v))
             \<longleftrightarrow> 20 \<le> fuel_level v / max_fuel v * 100 \<and> fuel_level v / max_fuel v * 100 < 40"
    by (auto simp add: vehicle_level_def fuel_ratio_def fuel_alert_for_def fuel_warning_for_def)
  show "vehicle_level v = [] \<longleftrightarrow> 40 \<le> fuel_level v / max_fuel v * 100"
    by (auto simp add: vehicle_level_def fuel_ratio_def)
next
  fix r assume "r \<in> set (ledger_level (optimization_history s))"
  then show "rec_kind r = efficiency_improvement" "rec_vehicle_id r = None"
    using ledger_level_kind by blast+
next
  show "length (ledger_level (optimization_history s)) \<le> 1"
    by (simp add: ledger_level_def Let_def)
qed

theorem vehicle_recommendations_thresholds_witness:
  "\<not> list_ex (\<lambda>v. max_fuel v = 0)
        (svc_vehicles (state_with_vehicles [low_vehicle, full_vehicle, mid_vehicle]))
   \<and> get_optimization_recommendations (state_with_vehicles [low_vehicle, full_vehicle, mid_vehicle])
       = [fuel_alert_for low_vehicle (25 / 3), fuel_warning_for mid_vehicle (100 / 3)]"
proof -
  let ?s = "state_with_vehicles [low_vehicle, full_vehicle, mid_vehicle]"
  have h: "\<not> list_ex (\<lambda>v. max_fuel v = 0) (svc_vehicles ?s)"
    by (simp add: low_vehicle_def mid_vehicle_def full_vehicle_def)
  from vehicle_recommendations_thresholds [OF h]
  have "get_optimization_recommendations ?s =
      concat (map vehicle_level (svc_vehicles ?s)) @ ledger_level (optimization_history ?s)"
    by blast
  also have "\<dots> = [fuel_alert_for low_vehicle (25 / 3), fuel_warning_for mid_vehicle (100 / 3)]"
    by (simp add: vehicle_level_def fuel_ratio_def ledger_level_def low_vehicle_def
        mid_vehicle_def full_vehicle_def)
  finally show ?thesis using h by blast
qed

text \<open>
  Claim C8 as stated, for every vehicle of the fleet state, fails: a vehicle with
  \<open>max_fuel = 0\<close> anywhere in the list makes the method return the empty list, so a
  vehicle with a ratio below 20 gets no \<open>fuel_alert\<close>.
\<close>

theorem vehicle_recommendations_thresholds_counterexample:
  "low_vehicle \<in> set (svc_vehicles (state_with_vehicles [low_vehicle, broken_vehicle]))
   \<and> fuel_level low_vehicle / max_fuel low_vehicle * 100 < 20
   \<and> get_optimization_recommendations (state_with_vehicles [low_vehicle, broken_vehicle]) = []"
  by (simp add: low_vehicle_def broken_vehicle_def get_optimization_recommendations_def)

text \<open>
  Claim C5, as the code has it: with more than five runs in the history, the last five
  each at efficiency score 0.5, and no vehicle with \<open>max_fuel = 0\<close>, the output has
  exactly one \<open>efficiency_improvement\<close> entry; with exactly five runs, whatever their
  scores, it has none; with more than five runs, the last five each at 0.9, it has none.
\<close>

theorem efficiency_recommendation_rule:
  "(\<not> list_ex (\<lambda>v. max_fuel v = 0) (svc_vehicles s)
      \<and> length (optimization_history s) > 5
      \<and> (\<forall>r \<in> set (drop (length (optimization_history s) - 5) (optimization_history s)).
            efficiency_score r = 0.5)
      \<longrightarrow> length (efficiency_entries (get_optimization_recommendations s)) = 1)
   \<and> (length (optimization_history s) = 5
      \<longrightarrow> efficiency_entries (get_optimization_recommendations s) = [])
   \<and> (length (optimization_history s) > 5
      \<and> (\<forall>r \<in> set (drop (length (optimization_history s) - 5) (optimization_history s)).
            efficiency_score r = 0.9)
      \<longrightarrow> efficiency_entries (get_optimization_recommendations s) = [])"
proof (intro conjI impI)
  assume h: "\<not> list_ex (\<lambda>v. max_fuel v = 0) (svc_vehicles s)
      \<and> length (optimization_history s) > 5
      \<and> (\<forall>r \<in> set (drop (length (optimization_history s) - 5) (optimization_history s)).
            efficiency_score r = 0.5)"
  then have "ledger_level (optimization_history s) = [efficiency_recommendation 0.5]"
    using ledger_level_const [of "optimization_history s" "0.5"] by simp
  with h show "length (efficiency_entries (get_optimization_recommendations s)) = 1"
    using efficiency_entries_vehicle [of "svc_vehicles s"]
      efficiency_entries_ledger [of "optimization_history s"]
    by (simp add: get_recommendations_ok efficiency_entries_def)
next
  assume h: "length (optimization_history s) = 5"
  show "efficiency_entries (get_optimization_recommendations s) = []"
  proof (cases "list_ex (\<lambda>v. max_fuel v = 0) (svc_vehicles s)")
    case True
    then show ?thesis by (simp add: get_recommendations_zero efficiency_entries_def)
  next
    case False
    have "ledger_level (optimization_history s) = []" using h by (simp add: ledger_level_def)
    with False show ?thesis
      using efficiency_entries_vehicle [of "svc_vehicles s"]
      by (simp add: get_recommendations_ok efficiency_entries_def)
  qed
next
  assume h: "length (optimization_history s) > 5
      \<and> (\<forall>r \<in> set (drop (length (optimization_history s) - 5) (optimization_history s)).
            efficiency_score r = 0.9)"
  show "efficiency_entries (get_optimization_recommendations s) = []"
  proof (cases "list_ex (\<lambda>v. max_fuel v = 0) (svc_vehicles s)")
    case True
    then show ?thesis by (simp add: get_recommendations_zero efficiency_entries_def)
  next
    case False
    from h have "ledger_level (optimization_history s) = []"
      using ledger_level_const [of "optimization_history s" "0.9"] by simp
    with False show ?thesis
      using efficiency_entries_vehicle [of "svc_vehicles s"]
      by (simp add: get_recommendations_ok efficiency_entries_def)
  qed
qed

theorem efficiency_recommendation_rule_witness:
  "\<not> list_ex (\<lambda>v. max_fuel v = 0) (svc_vehicles (state_with_history (six_runs 5)))
   \<and> length (optimization_history (state_with_history (six_runs 5))) > 5
   \<and> list_all (\<lambda>r. efficiency_score r = 0.5) (five_runs 5)
   \<and> length (efficiency_entries (get_optimization_recommendations (state_with_history (six_runs 5)))) = 1
   \<and> length (optimization_history (state_with_history (five_runs 9))) = 5
   \<and> efficiency_entries (get_optimization_recommendations (state_with_history (five_runs 9))) = []
   \<and> length (optimization_history (state_with_history (six_runs 9))) > 5
   \<and> list_all (\<lambda>r. efficiency_score r = 0.9) (five_runs 9)
   \<and> efficiency_entries (get_optimization_recommendations (state_with_history (six_runs 9))) = []"
proof -
  have a1: "\<not> list_ex (\<lambda>v. max_fuel v = 0) (svc_vehicles (state_with_history (six_runs 5)))"
    by simp
  have a2: "length (optimization_history (state_with_history (six_runs 5))) > 5"
    by (simp add: six_runs_def five_runs_def)
  have d: "drop (length (optimization_history (state_with_history (six_runs m))) - 5)
             (optimization_history (state_with_history (six_runs m))) = five_runs m" for m
    by (simp add: six_runs_def five_runs_def)
  have a3: "list_all (\<lambda>r. efficiency_score r = 0.5) (five_runs 5)"
    by (simp add: five_runs_def run_with_score_def)
  have b1: "length (optimization_history (state_with_history (five_runs 9))) = 5"
    by (simp add: five_runs_def)
  have c1: "length (optimization_history (state_with_history (six_runs 9))) > 5"
    by (simp add: six_runs_def five_runs_def)
  have c2: "list_all (\<lambda>r. efficiency_score r = 0.9) (five_runs 9)"
    by (simp add: five_runs_def run_with_score_def)
  have r1: "length (efficiency_entries (get_optimization_recommendations
               (state_with_history (six_runs 5)))) = 1"
    using efficiency_recommendation_rule [of "state_with_history (six_runs 5)"] a1 a2 a3
    unfolding d by (simp add: list_all_iff)
  have r2: "efficiency_entries (get_optimization_recommendations
               (state_with_history (five_runs 9))) = []"
    using efficiency_recommendation_rule [of "state_with_history (five_runs 9)"] b1 by blast
  have r3: "efficiency_entries (get_optimization_recommendations
               (state_with_history (six_runs 9))) = []"
    using efficiency_recommendation_rule [of "state_with_history (six_runs 9)"] c1 c2
    unfolding d by (simp add: list_all_iff)
  from a1 a2 a3 r1 b1 r2 c1 c2 r3 show ?thesis by blast
qed

text \<open>
  Claim C5 as stated fails: with exactly five runs, each at efficiency score 0.5, the
  test \<open>len(self.optimization_history) > 5\<close> is false and no
  \<open>efficiency_improvement\<close> entry is produced.
\<close>

theorem efficiency_recommendation_five_runs_counterexample:
  "length (optimization_history (state_with_history (five_runs 5))) = 5
   \<and> list_all (\<lambda>r. efficiency_score r = 0.5) (optimization_history (state_with_history (five_runs 5)))
   \<and> efficiency_entries (get_optimization_recommendations (state_with_history (five_runs 5))) = []"
  by (simp add: five_runs_def run_with_score_def get_optimization_recommendations_def
      efficiency_entries_def)

section \<open>Properties of the endpoints\<close>

lemma optimize_routes_cases:
  "optimize_routes s body uid na nr = (s', resp) \<Longrightarrow>
     (s' = s \<and> (resp = Error400 \<or> (\<exists>e. resp = Error500 e)))
     \<or> (\<exists>d ds vs made.
           body = Some d
         \<and> parse_items parse_delivery (data_deliveries d) [] = Inr ds
         \<and> parse_items parse_vehicle (data_vehicles d) [] = Inr vs
         \<and> made = (case assign_routes ds vs na of Inl e \<Rightarrow> 0 | Inr r \<Rightarrow> total_deliveries_assigned r)
         \<and> s' = s \<lparr> optimization_history := optimization_history s @
                 [\<lparr> opt_id = uid, opt_timestamp = nr, total_deliveries = length ds,
                    total_vehicles = length vs, assignments_made = made,
                    efficiency_score = real_of_int made / real (max 1 (length ds)) \<rparr>] \<rparr>
         \<and> resp = OptimizeResponse uid (assign_routes ds vs na)
                    (get_optimization_recommendations s'))"
proof (cases body)
  case None
  assume "optimize_routes s body uid na nr = (s', resp)"
  with None show ?thesis by (auto simp add: optimize_routes_def)
next
  case (Some d)
  assume h: "optimize_routes s body uid na nr = (s', resp)"
  show ?thesis
  proof (cases "parse_items parse_delivery (data_deliveries d) []")
    case (Inl e)
    with h Some show ?thesis by (auto simp add: optimize_routes_def)
  next
    case ds: (Inr ds)
    show ?thesis
    proof (cases "parse_items parse_vehicle (data_vehicles d) []")
      case (Inl e)
      with h Some ds show ?thesis by (auto simp add: optimize_routes_def)
    next
      case vs: (Inr vs)
      from h Some ds vs
      have "s' = s \<lparr> optimization_history := optimization_history s @
                 [\<lparr> opt_id = uid, opt_timestamp = nr, total_deliveries = length ds,
                    total_vehicles = length vs,
                    assignments_made = (case assign_routes ds vs na of Inl e \<Rightarrow> 0
                                        | Inr r \<Rightarrow> total_deliveries_assigned r),
                    efficiency_score =
                      real_of_int (case assign_routes ds vs na of Inl e \<Rightarrow> 0
                                   | Inr r \<Rightarrow> total_deliveries_assigned r)
                        / real (max 1 (length ds)) \<rparr>] \<rparr>"
        and "resp = OptimizeResponse uid (assign_routes ds vs na)
                    (get_optimization_recommendations s')"
        by (auto simp add: optimize_routes_def Let_def)
      with Some ds vs show ?thesis by blast
    qed
  qed
qed

lemma parse_default_delivery:
  "parse_delivery default_delivery_item = Inr (equator_stop ''d1'' 0 3 15)"
  by (simp add: parse_delivery_def default_delivery_item_def coerce_def get_default_def
      equator_stop_def)

lemma parse_default_vehicle:
  "parse_vehicle (default_vehicle_item \<lparr> vi_max_fuel := mx \<rparr>) =
     (case mx of Absent \<Rightarrow> Inr (equator_vehicle ''v1'' 0 50 60)
      | Given x \<Rightarrow> Inr (equator_vehicle ''v1'' 0 50 x)
      | Uncoercible \<Rightarrow> Inl ValueError)"
  by (simp add: parse_vehicle_def default_vehicle_item_def coerce_def get_default_def
      equator_vehicle_def split: field.split)

lemma zero_fuel_assign:
  "assign_routes ds [equator_vehicle ''v1'' 0 50 0] now = Inl ZeroDivisionError"
  by (simp add: assign_routes_def)

lemma zero_fuel_eval:
  "optimize_routes initial_state (Some zero_fuel_body) ''id'' ''t1'' ''t2'' =
     (state_with_history [failed_run ''id'' ''t2'' 1],
      OptimizeResponse ''id'' (Inl ZeroDivisionError) [])"
proof -
  have p1: "parse_items parse_delivery (data_deliveries zero_fuel_body) [] =
      Inr [equator_stop ''d1'' 0 3 15]"
    by (simp add: zero_fuel_body_def parse_default_delivery)
  have p2: "parse_items parse_vehicle (data_vehicles zero_fuel_body) [] =
      Inr [equator_vehicle ''v1'' 0 50 0]"
    by (simp add: zero_fuel_body_def parse_default_vehicle)
  have r: "get_optimization_recommendations (state_with_history [failed_run ''id'' ''t2'' 1]) = []"
    by (simp add: get_optimization_recommendations_def)
  have s: "initial_state \<lparr> optimization_history := optimization_history initial_state @
        [failed_run ''id'' ''t2'' 1] \<rparr> = state_with_history [failed_run ''id'' ''t2'' 1]"
    by (simp add: state_with_history_def)
  show ?thesis
    unfolding optimize_routes_def Let_def option.case p1 p2 sum.case zero_fuel_assign
    using s r by (simp add: failed_run_def)
qed

text \<open>
  Claim C6, as the code has it: a request to \<open>/optimize\<close> is answered with status 400,
  with status 500, or with a result; the history is unchanged in the first two cases
  (no body, or an entry that does not parse) and grows by exactly one run in the third.
  Every body that parses gets the third answer, also when \<open>assign_routes\<close> returned
  an error: then the error is the result of the answer and the appended run has
  \<open>assignments_made = 0\<close> and \<open>efficiency_score = 0\<close>.
\<close>

theorem optimize_routes_history:
  assumes "optimize_routes s body uid na nr = (s', resp)"
  shows "(resp = Error400 \<or> (\<exists>e. resp = Error500 e) \<or> (\<exists>result recs. resp = OptimizeResponse uid result recs))
     \<and> ((resp = Error400 \<or> (\<exists>e. resp = Error500 e)) \<longrightarrow> s' = s)
     \<and> (\<forall>result recs. resp = OptimizeResponse uid result recs \<longrightarrow>
          (\<exists>run. optimization_history s' = optimization_history s @ [run]
             \<and> opt_id run = uid
             \<and> (\<forall>e. result = Inl e \<longrightarrow> assignments_made run = 0 \<and> efficiency_score run = 0)
             \<and> (\<forall>r. result = Inr r \<longrightarrow> assignments_made run = total_deliveries_assigned r)))
     \<and> (\<forall>d ds vs. body = Some d
           \<and> parse_items parse_delivery (data_deliveries d) [] = Inr ds
           \<and> parse_items parse_vehicle (data_vehicles d) [] = Inr vs
           \<longrightarrow> (\<exists>recs. resp = OptimizeResponse uid (assign_routes ds vs na) recs))"
proof -
  have parsed: "\<forall>d ds vs. body = Some d
           \<and> parse_items parse_delivery (data_deliveries d) [] = Inr ds
           \<and> parse_items parse_vehicle (data_vehicles d) [] = Inr vs
           \<longrightarrow> (\<exists>recs. resp = OptimizeResponse uid (assign_routes ds vs na) recs)"
    using assms by (auto simp add: optimize_routes_def Let_def)
  from optimize_routes_cases [OF assms]
  have rest: "(resp = Error400 \<or> (\<exists>e. resp = Error500 e) \<or> (\<exists>result recs. resp = OptimizeResponse uid result recs))
     \<and> ((resp = Error400 \<or> (\<exists>e. resp = Error500 e)) \<longrightarrow> s' = s)
     \<and> (\<forall>result recs. resp = OptimizeResponse uid result recs \<longrightarrow>
          (\<exists>run. optimization_history s' = optimization_history s @ [run]
             \<and> opt_id run = uid
             \<and> (\<forall>e. result = Inl e \<longrightarrow> assignments_made run = 0 \<and> efficiency_score run = 0)
             \<and> (\<forall>r. result = Inr r \<longrightarrow> assignments_made run = total_deliveries_assigned r)))"
  proof (elim disjE conjE exE)
    assume "s' = s" "resp = Error400"
    then show ?thesis by simp
  next
    fix e assume "s' = s" "resp = Error500 e"
    then show ?thesis by simp
  next
    fix d ds vs made
    assume m: "made = (case assign_routes ds vs na of Inl e \<Rightarrow> 0
                       | Inr r \<Rightarrow> total_deliveries_assigned r)"
      and s': "s' = s \<lparr> optimization_history := optimization_history s @
                 [\<lparr> opt_id = uid, opt_timestamp = nr, total_deliveries = length ds,
                    total_vehicles = length vs, assignments_made = made,
                    efficiency_score = real_of_int made / real (max 1 (length ds)) \<rparr>] \<rparr>"
      and r: "resp = OptimizeResponse uid (assign_routes ds vs na)
                    (get_optimization_recommendations s')"
    let ?run = "\<lparr> opt_id = uid, opt_timestamp = nr, total_deliveries = length ds,
                    total_vehicles = length vs, assignments_made = made,
                    efficiency_score = real_of_int made / real (max 1 (length ds)) \<rparr>"
    have 1: "optimization_history s' = optimization_history s @ [?run]" by (simp add: s')
    have 2: "\<forall>e. assign_routes ds vs na = Inl e \<longrightarrow>
               assignments_made ?run = 0 \<and> efficiency_score ?run = 0"
      by (simp add: m)
    have 3: "\<forall>r. assign_routes ds vs na = Inr r \<longrightarrow>
               assignments_made ?run = total_deliveries_assigned r"
      by (simp add: m)
    have 4: "opt_id ?run = uid" by simp
    from 1 2 3 4 have "\<exists>run. optimization_history s' = optimization_history s @ [run]
             \<and> opt_id run = uid
             \<and> (\<forall>e. assign_routes ds vs na = Inl e \<longrightarrow>
                   assignments_made run = 0 \<and> efficiency_score run = 0)
             \<and> (\<forall>r. assign_routes ds vs na = Inr r \<longrightarrow>
                   assignments_made run = total_deliveries_assigned r)"
      by blast
    with r show ?thesis by simp
  qed
  from rest parsed show ?thesis by blast
qed

theorem optimize_routes_history_witness:
  "optimize_routes initial_state (Some zero_fuel_body) ''id'' ''t1'' ''t2'' =
     (state_with_history [failed_run ''id'' ''t2'' 1],
      OptimizeResponse ''id'' (Inl ZeroDivisionError) [])
   \<and> (\<exists>run. optimization_history (state_with_history [failed_run ''id'' ''t2'' 1])
               = optimization_history initial_state @ [run]
          \<and> opt_id run = ''id'' \<and> assignments_made run = 0 \<and> efficiency_score run = 0)"
proof -
  have h: "optimize_routes initial_state (Some zero_fuel_body) ''id'' ''t1'' ''t2'' =
     (state_with_history [failed_run ''id'' ''t2'' 1],
      OptimizeResponse ''id'' (Inl ZeroDivisionError) [])"
    by (rule zero_fuel_eval)
  note all = optimize_routes_history [OF h]
  note third = all [THEN conjunct2, THEN conjunct2, THEN conjunct1]
  from third [rule_format, of "Inl ZeroDivisionError" "[]", OF refl]
  obtain run where run: "optimization_history (state_with_history [failed_run ''id'' ''t2'' 1])
               = optimization_history initial_state @ [run]" "opt_id run = ''id''"
     and err: "\<forall>e. (Inl ZeroDivisionError :: py_error + AssignResult) = Inl e \<longrightarrow>
               assignments_made run = 0 \<and> efficiency_score run = 0"
    by (elim exE conjE)
  from err have "assignments_made run = 0 \<and> efficiency_score run = 0" by simp
  with run have "\<exists>run. optimization_history (state_with_history [failed_run ''id'' ''t2'' 1])
               = optimization_history initial_state @ [run]
          \<and> opt_id run = ''id'' \<and> assignments_made run = 0 \<and> efficiency_score run = 0"
    by (intro exI [of _ run]) simp
  with h show ?thesis by (rule conjI)
qed

text \<open>
  Claim C6 as stated fails: when the assignment fails internally (a vehicle with
  \<open>max_fuel = 0\<close>), the error is caught inside \<open>assign_routes\<close> and a run is
  appended to the history all the same.
\<close>

theorem optimize_routes_history_counterexample:
  "optimize_routes initial_state (Some zero_fuel_body) ''id'' ''t1'' ''t2'' =
     (state_with_history [failed_run ''id'' ''t2'' 1],
      OptimizeResponse ''id'' (Inl ZeroDivisionError) [])
   \<and> optimization_history (state_with_history [failed_run ''id'' ''t2'' 1])
       \<noteq> optimization_history initial_state"
  by (simp add: zero_fuel_eval)

lemma fuel_efficiency_recommendations:
  "response_recommendations (fuel_efficiency_endpoint body) = []"
  by (simp add: response_recommendations_def fuel_efficiency_endpoint_def
      split: option.split sum.split)

lemma handle_request_vehicles:
  "handle_request s call = (s', resp) \<Longrightarrow> svc_vehicles s' = svc_vehicles s"
proof (cases call)
  case (Optimize body uid na nr)
  assume "handle_request s call = (s', resp)"
  with Optimize have "optimize_routes s body uid na nr = (s', resp)" by simp
  from optimize_routes_cases [OF this] show ?thesis by auto
qed (auto simp add: Let_def)

lemma no_vehicles_recommendations:
  assumes "svc_vehicles s = []" and "r \<in> set (get_optimization_recommendations s)"
  shows "rec_kind r = efficiency_improvement"
proof -
  from assms(1) have "get_optimization_recommendations s = ledger_level (optimization_history s)"
    by (simp add: get_recommendations_ok)
  with assms(2) show ?thesis using ledger_level_kind by simp
qed

lemma handle_request_recommendations:
  assumes "svc_vehicles s = []" and "handle_request s call = (s', resp)"
    and "r \<in> set (response_recommendations resp)"
  shows "rec_kind r = efficiency_improvement"
proof (cases call)
  case (Optimize body uid na nr)
  with assms(2) have o: "optimize_routes s body uid na nr = (s', resp)" by simp
  from handle_request_vehicles [OF assms(2)] assms(1) have v: "svc_vehicles s' = []" by simp
  from optimize_routes_cases [OF o] assms(3)
  have "r \<in> set (get_optimization_recommendations s')"
    by (auto simp add: response_recommendations_def)
  with v show ?thesis by (rule no_vehicles_recommendations)
next
  case (Recommendations now)
  with assms(2,3) have "r \<in> set (get_optimization_recommendations s)"
    by (auto simp add: response_recommendations_def Let_def)
  with assms(1) show ?thesis by (rule no_vehicles_recommendations)
next
  case (Health now)
  with assms(2,3) show ?thesis by (auto simp add: response_recommendations_def)
next
  case (FuelEfficiency body)
  with assms(2,3) show ?thesis
    using fuel_efficiency_recommendations [of body] by auto
next
  case (History limit)
  with assms(2,3) show ?thesis by (auto simp add: response_recommendations_def Let_def)
qed

lemma serve_invariant:
  assumes "svc_vehicles s = []" and "serve s calls = (s', responses)"
  shows "svc_vehicles s' = [] \<and>
     (\<forall>resp \<in> set responses. \<forall>r \<in> set (response_recommendations resp).
        rec_kind r = efficiency_improvement)"
  using assms
proof (induction calls arbitrary: s s' responses)
  case Nil
  then show ?case by simp
next
  case (Cons call calls)
  obtain s1 resp where h: "handle_request s call = (s1, resp)"
    by (cases "handle_request s call")
  obtain s2 rest where t: "serve s1 calls = (s2, rest)"
    by (cases "serve s1 calls")
  from Cons.prems(2) h t have eq: "s' = s2" "responses = resp # rest" by simp_all
  from handle_request_vehicles [OF h] Cons.prems(1) have v1: "svc_vehicles s1 = []" by simp
  from Cons.IH [OF v1 t] have ih: "svc_vehicles s2 = []"
    "\<forall>resp \<in> set rest. \<forall>r \<in> set (response_recommendations resp).
        rec_kind r = efficiency_improvement" by simp_all
  have "\<forall>r \<in> set (response_recommendations resp). rec_kind r = efficiency_improvement"
    using handle_request_recommendations [OF Cons.prems(1) h] by blast
  with ih eq show ?case by simp
qed

lemma parse_far_delivery:
  "parse_delivery (default_delivery_item \<lparr> di_longitude := Given 10 \<rparr>) =
     Inr (equator_stop ''d1'' 10 3 15)"
  by (simp add: parse_delivery_def default_delivery_item_def coerce_def get_default_def
      equator_stop_def)

lemma far_assign:
  "assign_routes [equator_stop ''d1'' 10 3 15] [equator_vehicle ''v1'' 0 50 60] now =
     Inr (far_result now)"
proof -
  have s: "find_suitable_stops (equator_vehicle ''v1'' 0 50 60) [equator_stop ''d1'' 10 3 15] = []"
    by (simp add: range_eval)
  have loop: "assign_loop [equator_vehicle ''v1'' 0 50 60] [] [equator_stop ''d1'' 10 3 15] =
      ([], [equator_stop ''d1'' 10 3 15])"
    by (simp add: assign_loop.simps s)
  show ?thesis
    unfolding assign_routes_def Let_def by (simp add: loop far_result_def)
qed

lemma far_body_step:
  "optimize_routes (state_with_history h) (Some far_body) uid na nr =
     (state_with_history (h @ [failed_run uid nr 1]),
      OptimizeResponse uid (Inr (far_result na))
        (get_optimization_recommendations (state_with_history (h @ [failed_run uid nr 1]))))"
proof -
  have p1: "parse_items parse_delivery (data_deliveries far_body) [] =
      Inr [equator_stop ''d1'' 10 3 15]"
    by (simp add: far_body_def parse_far_delivery)
  have p2: "parse_items parse_vehicle (data_vehicles far_body) [] =
      Inr [equator_vehicle ''v1'' 0 50 60]"
    using parse_default_vehicle [of Absent]
    by (simp add: far_body_def default_vehicle_item_def)
  have s: "state_with_history h \<lparr> optimization_history :=
        optimization_history (state_with_history h) @ [failed_run uid nr 1] \<rparr> =
      state_with_history (h @ [failed_run uid nr 1])"
    by (simp add: state_with_history_def)
  show ?thesis
    unfolding optimize_routes_def Let_def option.case p1 p2 sum.case far_assign
    using s by (simp add: failed_run_def far_result_def)
qed

lemma history_recommendations:
  "get_optimization_recommendations (state_with_history h) = ledger_level h"
  by (simp add: get_recommendations_ok)

lemma busy_eval: "serve initial_state busy_calls = (busy_state, busy_responses)"
proof -
  have i: "initial_state = state_with_history []"
    by (simp add: state_with_history_def initial_state_def)
  show ?thesis
    unfolding i busy_calls_def
    by (simp add: far_body_step history_recommendations ledger_level_def failed_run_def
        busy_state_def busy_responses_def)
qed

text \<open>
  Claim C10: the vehicle list of the service is empty at start and no request writes
  it, so after every sequence of requests it is still empty, and no recommendation
  returned by \<open>/optimize\<close> or \<open>/recommendations\<close> is a \<open>fuel_alert\<close> or a
  \<open>fuel_warning\<close>.
\<close>

theorem no_fuel_recommendations_ever:
  assumes "serve initial_state calls = (s, responses)"
  shows "svc_vehicles s = [] \<and>
     (\<forall>resp \<in> set responses. \<forall>r \<in> set (response_recommendations resp).
        rec_kind r \<noteq> fuel_alert \<and> rec_kind r \<noteq> fuel_warning)"
proof -
  have "svc_vehicles initial_state = []" by (simp add: initial_state_def)
  from serve_invariant [OF this assms] show ?thesis by auto
qed

theorem no_fuel_recommendations_ever_witness:
  "serve initial_state busy_calls = (busy_state, busy_responses)
   \<and> svc_vehicles busy_state = []
   \<and> list_all (\<lambda>resp.
        list_all (\<lambda>r. rec_kind r \<noteq> fuel_alert \<and> rec_kind r \<noteq> fuel_warning)
          (response_recommendations resp)) busy_responses"
proof -
  have h: "serve initial_state busy_calls = (busy_state, busy_responses)" by (rule busy_eval)
  from no_fuel_recommendations_ever [OF h]
  have "svc_vehicles busy_state = []"
    and "list_all (\<lambda>resp.
        list_all (\<lambda>r. rec_kind r \<noteq> fuel_alert \<and> rec_kind r \<noteq> fuel_warning)
          (response_recommendations resp)) busy_responses"
    unfolding list_all_iff by blast+
  with h show ?thesis by blast
qed

end
